theory Spec2Isabelle
  imports Complex_Main
begin

section \<open>Data model of \<^verbatim>\<open>src/js/game.js\<close>\<close>

text \<open>
  JavaScript numbers that hold coordinates, speeds and timers are modelled as \<open>real\<close>
  (rounding of IEEE doubles is not modelled); counters (score, lives, level, pellets, grid
  indices) are \<open>int\<close>; the direction codes 0..3 and the map cells 0..3 are \<open>nat\<close>.
  A property that JavaScript leaves \<^verbatim>\<open>undefined\<close> until first written
  (\<^verbatim>\<open>scatterTimer\<close>, \<^verbatim>\<open>chaseTimer\<close>, \<^verbatim>\<open>lastDirectionUpdate\<close>) is a
  \<open>real option\<close>, \<open>None\<close> being \<^verbatim>\<open>undefined\<close>.
  Fields that only feed rendering (colour, particles, cached layers, the cache of power
  pellet positions) and fields that are written but never read (\<^verbatim>\<open>targetDirection\<close>,
  \<^verbatim>\<open>vx\<close>, \<^verbatim>\<open>vy\<close>, \<^verbatim>\<open>gameStartTime\<close>) are left out.
  Field names carry a one-letter prefix (\<open>p\<close> for the protagonist object, \<open>g\<close> for a
  ghost object) where the two objects use the same property name.
\<close>

datatype Phase = Loading | Playing | Paused | GameOver | Menu

datatype Mode = Scatter | Chase | Frightened | Dead

record GameState =
  current :: Phase
  score :: int
  level :: int
  lives :: int
  pelletsRemaining :: int
  powerPelletActive :: bool
  powerPelletTimer :: real

record Pacman =
  px :: real
  py :: real
  psize :: real
  pspeed :: real
  pdirection :: nat
  pgridX :: int
  pgridY :: int
  mouthOpen :: real
  mouthDirection :: real

record Ghost =
  gx :: real
  gy :: real
  gsize :: real
  gspeed :: real
  gname :: string
  personality :: string
  gdirection :: nat
  mode :: Mode
  ggridX :: int
  ggridY :: int
  modeTimer :: real
  inGhostHouse :: bool
  scatterTimer :: "real option"
  chaseTimer :: "real option"
  lastDirectionUpdate :: "real option"

record Keys =
  up :: bool
  down :: bool
  left :: bool
  right :: bool
  space :: bool

text \<open>
  \<^verbatim>\<open>Math.random()\<close> is an ambient source; the model carries the sequence of the values
  it is going to return, and every call takes the head of that sequence.
\<close>

type_synonym rng = "nat \<Rightarrow> real"

definition random :: "rng \<Rightarrow> real \<times> rng" where
  "random r = (r 0, \<lambda>n. r (Suc n))"

record PacmanGame =
  state :: GameState
  pacman :: Pacman
  ghosts :: "Ghost list"
  gameMap :: "nat list list"
  tunnelRows :: "int set"
  keys :: Keys
  GRID_SIZE :: real
  rnd :: rng

subsection \<open>Configuration and the built-in maze\<close>

definition GAME_SPEED :: real where
  "GAME_SPEED = 200"

definition ascii :: "string list" where
  "ascii =
   [''############################'',
    ''#............##............#'',
    ''#.####.#####.##.#####.####.#'',
    ''#o####.#####.##.#####.####o#'',
    ''#.####.#####.##.#####.####.#'',
    ''#..........................#'',
    ''#.####.##.########.##.####.#'',
    ''#.####.##.########.##.####.#'',
    ''#......##....##....##......#'',
    ''######.##### ## #####.######'',
    ''######.##### ## #####.######'',
    ''######.##          ##.######'',
    ''######.## ######## ##.######'',
    ''######.## #      # ##.######'',
    ''#............##............#'',
    ''######.## #      # ##.######'',
    ''######.## ######## ##.######'',
    ''######.##          ##.######'',
    ''######.## ######## ##.######'',
    ''######.## ######## ##.######'',
    ''#............##............#'',
    ''#.####.#####.##.#####.####.#'',
    ''#.####.#####.##.#####.####.#'',
    ''#o..##.......  .......##..o#'',
    ''###.##.##.########.##.##.###'',
    ''#......##....##....##......#'',
    ''#.##########.##.##########.#'',
    ''#..........................#'',
    ''############################'']"

text \<open>
  \<^verbatim>\<open>createDefaultMap\<close> stores the template's dimensions in
  \<^verbatim>\<open>GAME_CONFIG.CLASSIC_COLS\<close> and \<^verbatim>\<open>GAME_CONFIG.CLASSIC_ROWS\<close>; it runs in the
  constructor before anything reads them, so they are these constants throughout.
\<close>

definition CLASSIC_ROWS :: nat where
  "CLASSIC_ROWS = length ascii"

definition CLASSIC_COLS :: nat where
  "CLASSIC_COLS = length (ascii ! 0)"

definition cellOfChar :: "char \<Rightarrow> nat" where
  "cellOfChar ch =
     (if ch = CHR ''#'' then 1 else if ch = CHR ''.'' then 2 else if ch = CHR ''o'' then 3 else 0)"

definition createDefaultMap :: "nat list list" where
  "createDefaultMap =
     map (\<lambda>y. map (\<lambda>x. cellOfChar (ascii ! y ! x)) [0..<CLASSIC_COLS]) [0..<CLASSIC_ROWS]"

definition CANVAS_WIDTH :: "PacmanGame \<Rightarrow> real" where
  "CANVAS_WIDTH g = real CLASSIC_COLS * GRID_SIZE g"

definition CANVAS_HEIGHT :: "PacmanGame \<Rightarrow> real" where
  "CANVAS_HEIGHT g = real CLASSIC_ROWS * GRID_SIZE g"

text \<open>
  \<^verbatim>\<open>updateTunnelRows\<close>: the rows whose first and last cells are both not walls. The
  column count is that of row 0, as in the source.
\<close>

definition tunnelRowsOf :: "nat list list \<Rightarrow> int set" where
  "tunnelRowsOf m =
     (let cols = length (m ! 0)
      in set (map int (filter (\<lambda>y. m ! y ! 0 \<noteq> 1 \<and> m ! y ! (cols - 1) \<noteq> 1) [0..<length m])))"

definition updateTunnelRows :: "PacmanGame \<Rightarrow> PacmanGame" where
  "updateTunnelRows g = g\<lparr>tunnelRows := tunnelRowsOf (gameMap g)\<rparr>"

definition pelletCountOf :: "nat list list \<Rightarrow> nat" where
  "pelletCountOf m = sum_list (map (\<lambda>row. length (filter (\<lambda>c. c = 2 \<or> c = 3) row)) m)"

definition countPellets :: "PacmanGame \<Rightarrow> PacmanGame" where
  "countPellets g = g\<lparr>state := (state g)\<lparr>pelletsRemaining := int (pelletCountOf (gameMap g))\<rparr>\<rparr>"

subsection \<open>Position validity\<close>

definition isValidPosition :: "PacmanGame \<Rightarrow> real \<Rightarrow> real \<Rightarrow> real \<Rightarrow> bool" where
  "isValidPosition g x y sz =
     (if x - sz < 0 \<or> x + sz > CANVAS_WIDTH g \<or> y - sz < 0 \<or> y + sz > CANVAS_HEIGHT g
      then False
      else
        (let gridX = \<lfloor>x / GRID_SIZE g\<rfloor>; gridY = \<lfloor>y / GRID_SIZE g\<rfloor>
         in if gridY \<ge> 0 \<and> gridY < int (length (gameMap g)) \<and>
               gridX \<ge> 0 \<and> gridX < int (length (gameMap g ! nat gridY))
            then gameMap g ! nat gridY ! nat gridX \<noteq> 1
            else True))"

subsection \<open>Session state (\<^verbatim>\<open>class GameState\<close>)\<close>

definition reset :: "GameState \<Rightarrow> GameState" where
  "reset s = s\<lparr>current := Playing, score := 0, level := 1, lives := 3,
                pelletsRemaining := 0, powerPelletActive := False, powerPelletTimer := 0\<rparr>"

definition addScore :: "int \<Rightarrow> GameState \<Rightarrow> GameState" where
  "addScore points s = s\<lparr>score := score s + points\<rparr>"

definition loseLife :: "GameState \<Rightarrow> GameState" where
  "loseLife s =
     (let s1 = s\<lparr>lives := lives s - 1\<rparr>
      in if lives s1 \<le> 0 then s1\<lparr>current := GameOver\<rparr> else s1)"

text \<open>\<^verbatim>\<open>GameState.nextLevel\<close> (the game object has a method of the same name).\<close>

definition stateNextLevel :: "GameState \<Rightarrow> GameState" where
  "stateNextLevel s = s\<lparr>level := level s + 1\<rparr>"

subsection \<open>Spawning and resetting\<close>

definition initializeGameObjects :: "PacmanGame \<Rightarrow> PacmanGame" where
  "initializeGameObjects g =
     (let gs = GRID_SIZE g;
          cols = int (length (gameMap g ! 0));
          rows = int (length (gameMap g));
          startGX = cols div 2;
          startGY = rows - 2;
          ghostHouseCenterX = real_of_int (cols div 2) + 0.5;
          ghostHouseCenterY = real_of_int (rows div 2) + 0.5
      in countPellets (g\<lparr>
           pacman := \<lparr>px = gs * (real_of_int startGX + 0.5), py = gs * (real_of_int startGY + 0.5),
                       psize = gs * 0.4, pspeed = GAME_SPEED, pdirection = 2,
                       pgridX = startGX, pgridY = startGY, mouthOpen = 0, mouthDirection = 1\<rparr>,
           ghosts :=
             [\<lparr>gx = gs * ghostHouseCenterX, gy = gs * (ghostHouseCenterY - 1),
               gsize = gs * 0.4, gspeed = GAME_SPEED * 0.8, gname = ''Blinky'',
               personality = ''aggressive'', gdirection = 3, mode = Scatter,
               ggridX = \<lfloor>ghostHouseCenterX\<rfloor>, ggridY = \<lfloor>ghostHouseCenterY - 1\<rfloor>,
               modeTimer = 0, inGhostHouse = False,
               scatterTimer = None, chaseTimer = None, lastDirectionUpdate = None\<rparr>,
              \<lparr>gx = gs * (ghostHouseCenterX - 1), gy = gs * ghostHouseCenterY,
               gsize = gs * 0.4, gspeed = GAME_SPEED * 0.8, gname = ''Pinky'',
               personality = ''ambush'', gdirection = 0, mode = Scatter,
               ggridX = \<lfloor>ghostHouseCenterX - 1\<rfloor>, ggridY = \<lfloor>ghostHouseCenterY\<rfloor>,
               modeTimer = 2, inGhostHouse = True,
               scatterTimer = None, chaseTimer = None, lastDirectionUpdate = None\<rparr>,
              \<lparr>gx = gs * ghostHouseCenterX, gy = gs * ghostHouseCenterY,
               gsize = gs * 0.4, gspeed = GAME_SPEED * 0.8, gname = ''Inky'',
               personality = ''patrol'', gdirection = 2, mode = Scatter,
               ggridX = \<lfloor>ghostHouseCenterX\<rfloor>, ggridY = \<lfloor>ghostHouseCenterY\<rfloor>,
               modeTimer = 4, inGhostHouse = True,
               scatterTimer = None, chaseTimer = None, lastDirectionUpdate = None\<rparr>,
              \<lparr>gx = gs * (ghostHouseCenterX + 1), gy = gs * ghostHouseCenterY,
               gsize = gs * 0.4, gspeed = GAME_SPEED * 0.8, gname = ''Clyde'',
               personality = ''random'', gdirection = 2, mode = Scatter,
               ggridX = \<lfloor>ghostHouseCenterX + 1\<rfloor>, ggridY = \<lfloor>ghostHouseCenterY\<rfloor>,
               modeTimer = 6, inGhostHouse = True,
               scatterTimer = None, chaseTimer = None, lastDirectionUpdate = None\<rparr>]\<rparr>))"

text \<open>
  \<^verbatim>\<open>resetPositions\<close>: the protagonist goes to the centre of cell (1, 1) and ghost number
  \<open>index\<close> to \<open>(GRID_SIZE * (5 + index), GRID_SIZE * 5)\<close>.
\<close>

fun resetGhostPositions :: "real \<Rightarrow> nat \<Rightarrow> Ghost list \<Rightarrow> Ghost list" where
  "resetGhostPositions gs index [] = []"
| "resetGhostPositions gs index (ghost # rest) =
     ghost\<lparr>gx := gs * (5 + real index), gy := gs * 5\<rparr> # resetGhostPositions gs (Suc index) rest"

definition resetPositions :: "PacmanGame \<Rightarrow> PacmanGame" where
  "resetPositions g =
     g\<lparr>pacman := (pacman g)\<lparr>px := GRID_SIZE g * 1.5, py := GRID_SIZE g * 1.5\<rparr>,
       ghosts := resetGhostPositions (GRID_SIZE g) 0 (ghosts g)\<rparr>"

subsection \<open>Ghost targets\<close>

definition corners :: "PacmanGame \<Rightarrow> string \<Rightarrow> (real \<times> real) option" where
  "corners g =
     map_of [(''Blinky'', (CANVAS_WIDTH g - 40, 40)),
             (''Pinky'', (40, 40)),
             (''Inky'', (CANVAS_WIDTH g - 40, CANVAS_HEIGHT g - 40)),
             (''Clyde'', (40, CANVAS_HEIGHT g - 40))]"

text \<open>
  \<^verbatim>\<open>getGhostTarget\<close>. Directions are only ever assigned 0..3, so the table look-ups
  are in range.
\<close>

definition getGhostTarget :: "PacmanGame \<Rightarrow> Ghost \<Rightarrow> rng \<Rightarrow> (real \<times> real) \<times> rng" where
  "getGhostTarget g ghost r =
     (let p = pacman g in
      if mode ghost = Frightened then
        (let (a, r1) = random r; (b, r2) = random r1
         in ((a * CANVAS_WIDTH g, b * CANVAS_HEIGHT g), r2))
      else if mode ghost = Scatter then
        (case corners g (gname ghost) of
           Some c \<Rightarrow> (c, r)
         | None \<Rightarrow> ((px p, py p), r))
      else if personality ghost = ''aggressive'' then ((px p, py p), r)
      else if personality ghost = ''ambush'' then
        (let directions = [(4 * GRID_SIZE g, 0), (0, 4 * GRID_SIZE g),
                           (- 4 * GRID_SIZE g, 0), (0, - 4 * GRID_SIZE g)];
             dir = directions ! pdirection p
         in ((px p + fst dir, py p + snd dir), r))
      else if personality ghost = ''patrol'' then
        (let distance = sqrt ((px p - gx ghost)\<^sup>2 + (py p - gy ghost)\<^sup>2)
         in if distance > 8 * GRID_SIZE g then ((px p, py p), r)
            else ((40, CANVAS_HEIGHT g - 40), r))
      else if personality ghost = ''random'' then
        (let (a, r1) = random r
         in if a < 0.7 then ((px p, py p), r1)
            else (let (b, r2) = random r1; (c, r3) = random r2
                  in ((b * CANVAS_WIDTH g, c * CANVAS_HEIGHT g), r3)))
      else ((px p, py p), r))"

subsection \<open>Direction re-selection\<close>

text \<open>
  One pass of the \<^verbatim>\<open>forEach\<close> in \<^verbatim>\<open>chooseGhostDirection\<close>: the loop state is
  \<open>(bestDirection, bestDistance, random source)\<close>, with \<open>bestDistance = None\<close> for
  \<^verbatim>\<open>Infinity\<close>. \<^verbatim>\<open>Math.random()\<close> is only called for the reverse direction
  (\<^verbatim>\<open>&&\<close> short-circuits).
\<close>

definition lookahead :: "Ghost \<Rightarrow> real \<times> real \<times> nat \<Rightarrow> real \<times> real" where
  "lookahead ghost d =
     (case d of (dx, dy, ddir) \<Rightarrow>
        (gx ghost + dx * gspeed ghost * 0.1, gy ghost + dy * gspeed ghost * 0.1))"

definition distanceTo :: "real \<times> real \<Rightarrow> real \<times> real \<Rightarrow> real" where
  "distanceTo tgt pos = sqrt ((fst tgt - fst pos)\<^sup>2 + (snd tgt - snd pos)\<^sup>2)"

definition considerDirection ::
  "PacmanGame \<Rightarrow> Ghost \<Rightarrow> real \<times> real \<Rightarrow> (real \<times> real \<times> nat) \<Rightarrow>
   nat \<times> real option \<times> rng \<Rightarrow> nat \<times> real option \<times> rng" where
  "considerDirection g ghost tgt d st =
     (case (d, st) of ((dx, dy, ddir), (bestDirection, bestDistance, r)) \<Rightarrow>
        (let (skip, r1) =
               (if ddir = (gdirection ghost + 2) mod 4
                then (let (a, r') = random r in (a > 0.2, r'))
                else (False, r))
         in if skip then (bestDirection, bestDistance, r1)
            else
              (let (newX, newY) = lookahead ghost d
               in if isValidPosition g newX newY (gsize ghost)
                  then
                    (let distance = distanceTo tgt (newX, newY)
                     in if (case bestDistance of None \<Rightarrow> True | Some b \<Rightarrow> distance < b)
                        then (ddir, Some distance, r1)
                        else (bestDirection, bestDistance, r1))
                  else (bestDirection, bestDistance, r1))))"

definition directionTable :: "(real \<times> real \<times> nat) list" where
  "directionTable = [(1, 0, 0), (0, 1, 1), (-1, 0, 2), (0, -1, 3)]"

text \<open>\<^verbatim>\<open>if (!target) target = this.getGhostTarget(ghost)\<close>, with the random source left over.\<close>

definition resolveTarget ::
  "PacmanGame \<Rightarrow> Ghost \<Rightarrow> (real \<times> real) option \<Rightarrow> rng \<Rightarrow> (real \<times> real) \<times> rng" where
  "resolveTarget g ghost targetOpt r =
     (case targetOpt of None \<Rightarrow> getGhostTarget g ghost r | Some t \<Rightarrow> (t, r))"

definition chooseGhostDirection ::
  "PacmanGame \<Rightarrow> Ghost \<Rightarrow> (real \<times> real) option \<Rightarrow> rng \<Rightarrow> Ghost \<times> rng" where
  "chooseGhostDirection g ghost targetOpt r =
     (let (tgt, r0) = resolveTarget g ghost targetOpt r;
          (bestDirection, bestDistance, r1) =
             fold (considerDirection g ghost tgt) directionTable (gdirection ghost, None, r0)
      in (ghost\<lparr>gdirection := bestDirection\<rparr>, r1))"

subsection \<open>Ghost update\<close>

text \<open>
  \<^verbatim>\<open>if (!t) t = d\<close> on a timer: \<^verbatim>\<open>undefined\<close> and \<open>0\<close> are both falsy.
\<close>

definition orDefault :: "real option \<Rightarrow> real \<Rightarrow> real" where
  "orDefault t d = (case t of None \<Rightarrow> d | Some v \<Rightarrow> if v = 0 then d else v)"

text \<open>The scatter/chase switch of \<^verbatim>\<open>updateGhostAI\<close>.\<close>

definition updateModeTimers :: "Ghost \<Rightarrow> real \<Rightarrow> Ghost" where
  "updateModeTimers ghost deltaTime =
     (if mode ghost = Scatter then
        (let t = orDefault (scatterTimer ghost) 7 - deltaTime
         in if t \<le> 0 then ghost\<lparr>scatterTimer := Some t, mode := Chase, chaseTimer := Some 20\<rparr>
            else ghost\<lparr>scatterTimer := Some t\<rparr>)
      else if mode ghost = Chase then
        (let t = orDefault (chaseTimer ghost) 20 - deltaTime
         in if t \<le> 0 then ghost\<lparr>chaseTimer := Some t, mode := Scatter, scatterTimer := Some 7\<rparr>
            else ghost\<lparr>chaseTimer := Some t\<rparr>)
      else ghost)"

definition updateGhostAI :: "PacmanGame \<Rightarrow> Ghost \<Rightarrow> real \<Rightarrow> rng \<Rightarrow> Ghost \<times> rng" where
  "updateGhostAI g ghost deltaTime r =
     (let (tgt, r1) = getGhostTarget g ghost r;
          ghost1 = updateModeTimers ghost deltaTime;
          elapsed = orDefault (lastDirectionUpdate ghost1) 0 + deltaTime
      in if elapsed > 0.5
         then chooseGhostDirection g (ghost1\<lparr>lastDirectionUpdate := Some 0\<rparr>) (Some tgt) r1
         else (ghost1\<lparr>lastDirectionUpdate := Some elapsed\<rparr>, r1))"

definition directions :: "(real \<times> real) list" where
  "directions = [(1, 0), (0, 1), (-1, 0), (0, -1)]"

text \<open>
  The \<^verbatim>\<open>// Handle tunnel wrapping\<close> block of the \<^verbatim>\<open>updateGhosts\<close> callback:
  \<open>Some\<close> ghost when one of its two branches fires (the callback then returns), \<open>None\<close>
  when control falls through to the validity check.
\<close>

definition ghostCandidate :: "Ghost \<Rightarrow> real \<Rightarrow> real \<times> real" where
  "ghostCandidate ghost deltaTime =
     (let dir = directions ! gdirection ghost
      in (gx ghost + fst dir * gspeed ghost * deltaTime,
          gy ghost + snd dir * gspeed ghost * deltaTime))"

definition ghostTunnelWrap :: "PacmanGame \<Rightarrow> Ghost \<Rightarrow> real \<Rightarrow> Ghost option" where
  "ghostTunnelWrap g ghost deltaTime =
     (let (newX, newY) = ghostCandidate ghost deltaTime;
          gs = GRID_SIZE g;
          cols = real (length (gameMap g ! 0));
          row = \<lfloor>gy ghost / gs\<rfloor>
      in if row \<in> tunnelRows g
         then (if newX < - gs \<and> gdirection ghost = 2 then Some (ghost\<lparr>gx := cols * gs + gs\<rparr>)
               else if newX > cols * gs + gs \<and> gdirection ghost = 0 then Some (ghost\<lparr>gx := - gs\<rparr>)
               else None)
         else None)"

text \<open>The movement part of the \<^verbatim>\<open>updateGhosts\<close> callback (from \<^verbatim>\<open>// Move ghost\<close> on).\<close>

definition moveGhost :: "PacmanGame \<Rightarrow> Ghost \<Rightarrow> real \<Rightarrow> rng \<Rightarrow> Ghost \<times> rng" where
  "moveGhost g ghost deltaTime r =
     (let (newX, newY) = ghostCandidate ghost deltaTime
      in case ghostTunnelWrap g ghost deltaTime of
           Some wrapped \<Rightarrow> (wrapped, r)
         | None \<Rightarrow>
             if isValidPosition g newX newY (gsize ghost)
             then (ghost\<lparr>gx := newX, gy := newY,
                         ggridX := \<lfloor>newX / GRID_SIZE g\<rfloor>, ggridY := \<lfloor>newY / GRID_SIZE g\<rfloor>\<rparr>, r)
             else chooseGhostDirection g ghost None r)"

text \<open>
  The head of the callback: the release timer runs down and the ghost leaves the ghost
  house when it reaches zero.
\<close>

definition leaveGhostHouse :: "PacmanGame \<Rightarrow> real \<Rightarrow> Ghost \<Rightarrow> Ghost" where
  "leaveGhostHouse g deltaTime ghost =
     (let ghost1 = ghost\<lparr>modeTimer := modeTimer ghost - deltaTime\<rparr>
      in if inGhostHouse ghost1 \<and> modeTimer ghost1 \<le> 0
         then ghost1\<lparr>inGhostHouse := False, gy := GRID_SIZE g * 11.5,
                     gdirection := 3, mode := Scatter\<rparr>
         else ghost1)"

text \<open>The whole callback of \<^verbatim>\<open>this.ghosts.forEach\<close> in \<^verbatim>\<open>updateGhosts\<close>.\<close>

definition updateGhost :: "PacmanGame \<Rightarrow> real \<Rightarrow> Ghost \<Rightarrow> rng \<Rightarrow> Ghost \<times> rng" where
  "updateGhost g deltaTime ghost r =
     (let ghost2 = leaveGhostHouse g deltaTime ghost
      in if inGhostHouse ghost2 then (ghost2, r)
         else (let (ghost3, r1) = updateGhostAI g ghost2 deltaTime r
               in moveGhost g ghost3 deltaTime r1))"

fun updateGhostList :: "PacmanGame \<Rightarrow> real \<Rightarrow> Ghost list \<Rightarrow> rng \<Rightarrow> Ghost list \<times> rng" where
  "updateGhostList g deltaTime [] r = ([], r)"
| "updateGhostList g deltaTime (ghost # rest) r =
     (let (ghost', r1) = updateGhost g deltaTime ghost r;
          (rest', r2) = updateGhostList g deltaTime rest r1
      in (ghost' # rest', r2))"

definition updateGhosts :: "real \<Rightarrow> PacmanGame \<Rightarrow> PacmanGame" where
  "updateGhosts deltaTime g =
     (let (ghs, r) = updateGhostList g deltaTime (ghosts g) (rnd g)
      in g\<lparr>ghosts := ghs, rnd := r\<rparr>)"

subsection \<open>Protagonist update\<close>

text \<open>
  The input block: the four key flags are tested in the order up, down, left, right and
  the last one that is set wins.
\<close>

definition inputDirection :: "PacmanGame \<Rightarrow> nat" where
  "inputDirection g =
     (let d0 = pdirection (pacman g);
          d1 = (if up (keys g) then 3 else d0);
          d2 = (if down (keys g) then 1 else d1);
          d3 = (if left (keys g) then 2 else d2)
      in if right (keys g) then 0 else d3)"

text \<open>
  The \<^verbatim>\<open>// Side tunnel wrap\<close> block of \<^verbatim>\<open>updatePacman\<close>: \<open>Some\<close> protagonist when one
  of its two branches fires (the method then returns), \<open>None\<close> otherwise.
\<close>

definition pacmanTunnelWrap :: "PacmanGame \<Rightarrow> Pacman option" where
  "pacmanTunnelWrap g =
     (let p = pacman g;
          newDirection = inputDirection g;
          dir = directions ! newDirection;
          gs = GRID_SIZE g;
          cols = real (length (gameMap g ! 0));
          row = \<lfloor>py p / gs\<rfloor>
      in if row \<in> tunnelRows g
         then (if fst dir < 0 \<and> px p - psize p \<le> 0
               then Some (p\<lparr>pdirection := newDirection,
                            px := (cols - 1 + 0.5) * gs, py := (real_of_int row + 0.5) * gs,
                            pgridX := \<lfloor>(cols - 1 + 0.5) * gs / gs\<rfloor>, pgridY := row\<rparr>)
               else if fst dir > 0 \<and> px p + psize p \<ge> cols * gs
               then Some (p\<lparr>pdirection := newDirection,
                            px := 0.5 * gs, py := (real_of_int row + 0.5) * gs,
                            pgridX := \<lfloor>0.5 * gs / gs\<rfloor>, pgridY := row\<rparr>)
               else None)
         else None)"

definition pacmanCandidate :: "real \<Rightarrow> PacmanGame \<Rightarrow> real \<times> real" where
  "pacmanCandidate deltaTime g =
     (let p = pacman g;
          dir = directions ! inputDirection g
      in (px p + fst dir * pspeed p * deltaTime, py p + snd dir * pspeed p * deltaTime))"

definition updatePacman :: "real \<Rightarrow> PacmanGame \<Rightarrow> PacmanGame" where
  "updatePacman deltaTime g =
     (let p = pacman g;
          newDirection = inputDirection g;
          (newX, newY) = pacmanCandidate deltaTime g
      in case pacmanTunnelWrap g of
           Some wrapped \<Rightarrow> g\<lparr>pacman := wrapped\<rparr>
         | None \<Rightarrow>
             if isValidPosition g newX newY (psize p)
             then (let m = mouthOpen p + mouthDirection p * 0.15;
                       (mo, md) = (if m \<ge> 1 then (1, -1) else if m \<le> 0 then (0, 1)
                                   else (m, mouthDirection p))
                   in g\<lparr>pacman := p\<lparr>pdirection := newDirection, px := newX, py := newY,
                                       pgridX := \<lfloor>newX / GRID_SIZE g\<rfloor>,
                                       pgridY := \<lfloor>newY / GRID_SIZE g\<rfloor>,
                                       mouthOpen := mo, mouthDirection := md\<rparr>\<rparr>)
             else g)"

subsection \<open>Collisions\<close>

text \<open>The callback that frightens the ghosts when a power pellet is eaten.\<close>

definition frightenGhost :: "Ghost \<Rightarrow> Ghost" where
  "frightenGhost ghost =
     (if \<not> inGhostHouse ghost \<and> mode ghost \<noteq> Dead
      then ghost\<lparr>mode := Frightened, gspeed := GAME_SPEED * 0.6,
                 gdirection := (gdirection ghost + 2) mod 4\<rparr>
      else ghost)"

definition setCell :: "nat list list \<Rightarrow> nat \<Rightarrow> nat \<Rightarrow> nat \<Rightarrow> nat list list" where
  "setCell m gridY gridX v = m[gridY := (m ! gridY)[gridX := v]]"

text \<open>
  First half of \<^verbatim>\<open>checkCollisions\<close> (\<^verbatim>\<open>// Check pellet collection\<close>): what the cell under
  the protagonist yields.
\<close>

definition collectPellet :: "PacmanGame \<Rightarrow> PacmanGame" where
  "collectPellet g =
     (let p = pacman g;
          gridX = \<lfloor>px p / GRID_SIZE g\<rfloor>;
          gridY = \<lfloor>py p / GRID_SIZE g\<rfloor>
      in if gridY \<ge> 0 \<and> gridY < int (length (gameMap g)) \<and>
            gridX \<ge> 0 \<and> gridX < int (length (gameMap g ! nat gridY))
         then
           (if gameMap g ! nat gridY ! nat gridX = 2 then
              g\<lparr>gameMap := setCell (gameMap g) (nat gridY) (nat gridX) 0,
                state := (addScore 10 (state g))\<lparr>pelletsRemaining := pelletsRemaining (state g) - 1\<rparr>\<rparr>
            else if gameMap g ! nat gridY ! nat gridX = 3 then
              g\<lparr>gameMap := setCell (gameMap g) (nat gridY) (nat gridX) 0,
                state := (addScore 50 (state g))\<lparr>pelletsRemaining := pelletsRemaining (state g) - 1,
                                                powerPelletActive := True, powerPelletTimer := 8\<rparr>,
                ghosts := map frightenGhost (ghosts g)\<rparr>
            else g)
         else g)"

text \<open>
  Second half (\<^verbatim>\<open>// Check ghost collisions\<close>): the callback for the ghost at \<open>index\<close>. It
  reads the protagonist and the power flag as they are when this ghost's turn comes.
\<close>

definition inContact :: "Pacman \<Rightarrow> Ghost \<Rightarrow> bool" where
  "inContact p ghost =
     (let dx = px p - gx ghost;
          dy = py p - gy ghost;
          distance = sqrt (dx * dx + dy * dy)
      in distance < psize p + gsize ghost)"

definition collideGhost :: "nat \<Rightarrow> PacmanGame \<Rightarrow> PacmanGame" where
  "collideGhost index g =
     (let p = pacman g;
          ghost = ghosts g ! index
      in if inContact p ghost
         then
           (if powerPelletActive (state g)
            then g\<lparr>state := addScore 200 (state g),
                   ghosts := (ghosts g)[index := ghost\<lparr>gx := GRID_SIZE g * 5, gy := GRID_SIZE g * 5\<rparr>]\<rparr>
            else resetPositions (g\<lparr>state := loseLife (state g)\<rparr>))
         else g)"

definition checkCollisions :: "PacmanGame \<Rightarrow> PacmanGame" where
  "checkCollisions g =
     (let g1 = collectPellet g
      in fold collideGhost [0..<length (ghosts g1)] g1)"

subsection \<open>Level change, the tick, and commands\<close>

definition nextLevel :: "PacmanGame \<Rightarrow> PacmanGame" where
  "nextLevel g =
     resetPositions (updateTunnelRows (countPellets
       (g\<lparr>state := stateNextLevel (state g), gameMap := createDefaultMap\<rparr>)))"

text \<open>The callback that ends fright when the power countdown runs out.\<close>

definition endFrightened :: "Ghost \<Rightarrow> Ghost" where
  "endFrightened ghost =
     (if mode ghost = Frightened
      then ghost\<lparr>mode := Scatter, gspeed := GAME_SPEED * 0.8, scatterTimer := Some 3\<rparr>
      else ghost)"

text \<open>The \<^verbatim>\<open>// Update power pellet timer\<close> block of \<^verbatim>\<open>update\<close>.\<close>

definition updatePowerPelletTimer :: "real \<Rightarrow> PacmanGame \<Rightarrow> PacmanGame" where
  "updatePowerPelletTimer deltaTime g =
     (if powerPelletActive (state g)
      then
        (let t = powerPelletTimer (state g) - deltaTime
         in if t \<le> 0
            then g\<lparr>state := (state g)\<lparr>powerPelletTimer := t, powerPelletActive := False\<rparr>,
                   ghosts := map endFrightened (ghosts g)\<rparr>
            else g\<lparr>state := (state g)\<lparr>powerPelletTimer := t\<rparr>\<rparr>)
      else g)"

text \<open>\<^verbatim>\<open>update\<close> up to and including \<^verbatim>\<open>checkCollisions\<close>, then the win check.\<close>

definition updateToCollisions :: "real \<Rightarrow> PacmanGame \<Rightarrow> PacmanGame" where
  "updateToCollisions deltaTime g =
     checkCollisions (updatePowerPelletTimer deltaTime (updateGhosts deltaTime (updatePacman deltaTime g)))"

definition update :: "real \<Rightarrow> PacmanGame \<Rightarrow> PacmanGame" where
  "update deltaTime g =
     (let g1 = updateToCollisions deltaTime g
      in if pelletsRemaining (state g1) \<le> 0 then nextLevel g1 else g1)"

definition togglePause :: "PacmanGame \<Rightarrow> PacmanGame" where
  "togglePause g =
     (if current (state g) = Playing then g\<lparr>state := (state g)\<lparr>current := Paused\<rparr>\<rparr>
      else if current (state g) = Paused then g\<lparr>state := (state g)\<lparr>current := Playing\<rparr>\<rparr>
      else g)"

definition restart :: "PacmanGame \<Rightarrow> PacmanGame" where
  "restart g =
     updateTunnelRows (countPellets (initializeGameObjects
       (g\<lparr>state := reset (state g), gameMap := createDefaultMap\<rparr>)))"

text \<open>\<^verbatim>\<open>handleKeyDown\<close>, on the event's \<^verbatim>\<open>key\<close> string.\<close>

definition handleKeyDown :: "string \<Rightarrow> PacmanGame \<Rightarrow> PacmanGame" where
  "handleKeyDown key g =
     (if key = ''ArrowUp'' then g\<lparr>keys := (keys g)\<lparr>up := True\<rparr>\<rparr>
      else if key = ''ArrowDown'' then g\<lparr>keys := (keys g)\<lparr>down := True\<rparr>\<rparr>
      else if key = ''ArrowLeft'' then g\<lparr>keys := (keys g)\<lparr>left := True\<rparr>\<rparr>
      else if key = ''ArrowRight'' then g\<lparr>keys := (keys g)\<lparr>right := True\<rparr>\<rparr>
      else if key = '' '' then togglePause (g\<lparr>keys := (keys g)\<lparr>space := True\<rparr>\<rparr>)
      else if key = ''r'' \<or> key = ''R'' then
        (if current (state g) = GameOver then restart g else g)
      else g)"

text \<open>
  The \<^verbatim>\<open>touchstart\<close> listener that \<^verbatim>\<open>attachTouchControls\<close> puts on the element
  \<^verbatim>\<open>btnRestart\<close> (and \<^verbatim>\<open>window.resetGame\<close>): both call \<^verbatim>\<open>restart\<close> directly.
\<close>

definition btnRestartTouchstart :: "PacmanGame \<Rightarrow> PacmanGame" where
  "btnRestartTouchstart g = restart g"

subsection \<open>The \<^verbatim>\<open>Ghost\<close> class of \<^verbatim>\<open>src/js/ghost.js\<close> (target selection only)\<close>

text \<open>
  \<^verbatim>\<open>game.js\<close> builds its ghosts as object literals and does not instantiate this class;
  it is modelled for comparison with \<^verbatim>\<open>getGhostTarget\<close>.
\<close>

record GhostObj =
  ox :: real
  oy :: real
  color :: string
  opersonality :: string
  otarget :: "real \<times> real"
  homeCorner :: "real \<times> real"

definition getHomeCorner :: "PacmanGame \<Rightarrow> string \<Rightarrow> real \<times> real" where
  "getHomeCorner g c =
     (case map_of [(''#FF0000'', (CANVAS_WIDTH g - 40, 40)),
                   (''#FFB8FF'', (40, 40)),
                   (''#00FFFF'', (CANVAS_WIDTH g - 40, CANVAS_HEIGHT g - 40)),
                   (''#FFB852'', (40, CANVAS_HEIGHT g - 40))] c of
        Some corner \<Rightarrow> corner
      | None \<Rightarrow> (100, 100))"

definition updateChaseTarget :: "PacmanGame \<Rightarrow> Pacman \<Rightarrow> GhostObj \<Rightarrow> rng \<Rightarrow> GhostObj \<times> rng" where
  "updateChaseTarget g p this r =
     (if opersonality this = ''aggressive'' then (this\<lparr>otarget := (px p, py p)\<rparr>, r)
      else if opersonality this = ''ambush'' then
        (let dir = (if pdirection p < length directions then directions ! pdirection p
                    else directions ! 0)
         in (this\<lparr>otarget := (px p + fst dir * GRID_SIZE g * 4,
                               py p + snd dir * GRID_SIZE g * 4)\<rparr>, r))
      else if opersonality this = ''patrol'' then
        (let distance = sqrt ((px p - ox this)\<^sup>2 + (py p - oy this)\<^sup>2)
         in if distance > GRID_SIZE g * 8 then (this\<lparr>otarget := (px p, py p)\<rparr>, r)
            else (this\<lparr>otarget := homeCorner this\<rparr>, r))
      else if opersonality this = ''random'' then
        (let (a, r1) = random r
         in if a < 0.7 then (this\<lparr>otarget := (px p, py p)\<rparr>, r1)
            else (let (b, r2) = random r1; (c, r3) = random r2
                  in (this\<lparr>otarget := (b * CANVAS_WIDTH g, c * CANVAS_HEIGHT g)\<rparr>, r3)))
      else (this, r))"

subsection \<open>Concrete states used to exercise the theorems\<close>

definition noKeys :: Keys where
  "noKeys = \<lparr>up = False, down = False, left = False, right = False, space = False\<rparr>"

definition state0 :: GameState where
  "state0 = \<lparr>current = Playing, score = 0, level = 1, lives = 3, pelletsRemaining = 0,
             powerPelletActive = False, powerPelletTimer = 0\<rparr>"

text \<open>The protagonist in the middle of cell (1, 1) of a 20-pixel grid, facing right.\<close>

definition pacman0 :: Pacman where
  "pacman0 = \<lparr>px = 30, py = 30, psize = 8, pspeed = 200, pdirection = 0,
              pgridX = 1, pgridY = 1, mouthOpen = 0, mouthDirection = 1\<rparr>"

definition ghost0 :: Ghost where
  "ghost0 = \<lparr>gx = 30, gy = 30, gsize = 8, gspeed = 160, gname = ''Inky'',
             personality = ''patrol'', gdirection = 0, mode = Chase,
             ggridX = 1, ggridY = 1, modeTimer = 0, inGhostHouse = False,
             scatterTimer = Some 7, chaseTimer = Some 12, lastDirectionUpdate = Some 0\<rparr>"

text \<open>A session on the built-in maze, as \<^verbatim>\<open>updateTunnelRows\<close> leaves it after loading.\<close>

definition game0 :: PacmanGame where
  "game0 = \<lparr>state = state0, pacman = pacman0, ghosts = [ghost0],
            gameMap = createDefaultMap, tunnelRows = tunnelRowsOf createDefaultMap,
            keys = noKeys, GRID_SIZE = 20, rnd = (\<lambda>n. 1 / 2)\<rparr>"

text \<open>
  The cell that \<^verbatim>\<open>checkCollisions\<close> looks at: the bounds test and the look-up of its first
  \<^verbatim>\<open>if\<close>, \<open>None\<close> when the protagonist's cell is outside the map.
\<close>

definition cellUnderPacman :: "PacmanGame \<Rightarrow> nat option" where
  "cellUnderPacman g =
     (let gridX = \<lfloor>px (pacman g) / GRID_SIZE g\<rfloor>;
          gridY = \<lfloor>py (pacman g) / GRID_SIZE g\<rfloor>
      in if gridY \<ge> 0 \<and> gridY < int (length (gameMap g)) \<and>
            gridX \<ge> 0 \<and> gridX < int (length (gameMap g ! nat gridY))
         then Some (gameMap g ! nat gridY ! nat gridX)
         else None)"

text \<open>A ghost with its coordinates blanked: everything about it except where it is.\<close>

definition ghostCore :: "Ghost \<Rightarrow> Ghost" where
  "ghostCore ghost = ghost\<lparr>gx := 0, gy := 0\<rparr>"

definition ghostInHouse :: Ghost where
  "ghostInHouse = ghost0\<lparr>gx := 290, gy := 290, gname := ''Pinky'', personality := ''ambush'',
                         mode := Scatter, modeTimer := 2, inGhostHouse := True\<rparr>"

definition ghostDead :: Ghost where
  "ghostDead = ghost0\<lparr>gx := 100, gy := 100, mode := Dead\<rparr>"

text \<open>The protagonist on the power pellet of cell (1, 3), one ghost of each kind.\<close>

definition gamePower :: PacmanGame where
  "gamePower = game0\<lparr>pacman := pacman0\<lparr>py := 70, pgridY := 3\<rparr>,
                      ghosts := [ghost0, ghostInHouse, ghostDead]\<rparr>"

text \<open>
  The protagonist on the empty cell (9, 11) with a frightened ghost on top of it, the
  power state active; and the same meeting with the power state off and one life left.
\<close>

definition gameEat :: PacmanGame where
  "gameEat = game0\<lparr>state := state0\<lparr>powerPelletActive := True, powerPelletTimer := 5\<rparr>,
                    pacman := pacman0\<lparr>px := 190, py := 230, pgridX := 9, pgridY := 11\<rparr>,
                    ghosts := [ghost0\<lparr>gx := 190, gy := 230, gspeed := 120, mode := Frightened\<rparr>]\<rparr>"

definition gameHit :: PacmanGame where
  "gameHit = gameEat\<lparr>state := state0\<lparr>lives := 1\<rparr>\<rparr>"

text \<open>A session in play with points on the board.\<close>

definition gameScored :: PacmanGame where
  "gameScored = game0\<lparr>state := state0\<lparr>score := 500, level := 2\<rparr>\<rparr>"

subsection \<open>Vocabulary for direction re-selection\<close>

text \<open>
  A table entry is \<^emph>\<open>legal\<close> when the point one tenth of a second ahead in that direction
  is a valid position, and \<^emph>\<open>considered\<close> when it is not the reverse of the heading or
  the random draw \<open>a\<close> made for the reverse does not exceed 0.2. \<open>candidates\<close> keeps the
  enumeration order of the table.
\<close>

definition legalDirection :: "PacmanGame \<Rightarrow> Ghost \<Rightarrow> real \<times> real \<times> nat \<Rightarrow> bool" where
  "legalDirection g ghost d =
     isValidPosition g (fst (lookahead ghost d)) (snd (lookahead ghost d)) (gsize ghost)"

definition consideredDirection :: "Ghost \<Rightarrow> real \<Rightarrow> real \<times> real \<times> nat \<Rightarrow> bool" where
  "consideredDirection ghost a d = (snd (snd d) \<noteq> (gdirection ghost + 2) mod 4 \<or> a \<le> 0.2)"

definition candidates :: "PacmanGame \<Rightarrow> Ghost \<Rightarrow> real \<Rightarrow> (real \<times> real \<times> nat) list" where
  "candidates g ghost a =
     filter (\<lambda>d. consideredDirection ghost a d \<and> legalDirection g ghost d) directionTable"

text \<open>The loop body with the random draw already made (used to reason about the loop).\<close>

definition considerDrawn ::
  "PacmanGame \<Rightarrow> Ghost \<Rightarrow> real \<times> real \<Rightarrow> real \<Rightarrow> (real \<times> real \<times> nat) \<Rightarrow>
   nat \<times> real option \<Rightarrow> nat \<times> real option" where
  "considerDrawn g ghost tgt a d st =
     (if consideredDirection ghost a d \<and> legalDirection g ghost d \<and>
         (case snd st of None \<Rightarrow> True | Some b \<Rightarrow> distanceTo tgt (lookahead ghost d) < b)
      then (snd (snd d), Some (distanceTo tgt (lookahead ghost d)))
      else st)"

text \<open>
  A ghost at the closed left end of row 14 of the built-in maze, heading left, one step
  from the wall; and the same session with a random source that keeps returning 0.1.
\<close>

definition ghostStuck :: Ghost where
  "ghostStuck = ghost0\<lparr>gx := 22, gy := 290, gdirection := 2, mode := Scatter,
                       ggridX := 1, ggridY := 14\<rparr>"

definition gameLucky :: PacmanGame where
  "gameLucky = game0\<lparr>rnd := (\<lambda>n. 1 / 10)\<rparr>"

text \<open>The protagonist just below the top wall of the built-in maze, facing up.\<close>

definition gameWall :: PacmanGame where
  "gameWall = game0\<lparr>pacman := pacman0\<lparr>py := 22, pdirection := 3\<rparr>\<rparr>"

text \<open>
  The remaining-pellet counter agrees with the map. \<^verbatim>\<open>countPellets\<close> establishes this
  whenever a map is loaded.
\<close>

definition pelletInvariant :: "PacmanGame \<Rightarrow> bool" where
  "pelletInvariant g = (pelletsRemaining (state g) = int (pelletCountOf (gameMap g)))"

text \<open>A one-pellet map with the protagonist on the pellet.\<close>

definition gameLastPellet :: PacmanGame where
  "gameLastPellet = game0\<lparr>state := state0\<lparr>pelletsRemaining := 1\<rparr>,
                          ghosts := [ghostInHouse],
                          gameMap := [[1, 1, 1], [1, 2, 1], [1, 1, 1]], tunnelRows := {}\<rparr>"

text \<open>The same power pellet with a chasing ghost on the protagonist's position.\<close>

definition gamePowerContact :: PacmanGame where
  "gamePowerContact = gamePower\<lparr>ghosts := [ghost0\<lparr>gx := 30, gy := 70, ggridY := 3\<rparr>]\<rparr>"

text \<open>
  The power countdown about to run out: one fiftieth of a second is left, the protagonist
  is on the empty cell (9, 11), and the only ghost is \<open>ghost0\<close> as a power pellet has
  frightened it.
\<close>

definition gameFrightEnding :: PacmanGame where
  "gameFrightEnding =
     game0\<lparr>state := state0\<lparr>powerPelletActive := True, powerPelletTimer := 1 / 50\<rparr>,
           pacman := pacman0\<lparr>px := 190, py := 230, pgridX := 9, pgridY := 11\<rparr>,
           ghosts := [frightenGhost ghost0]\<rparr>"





text \<open>The session of \<open>game0\<close> with the ghost at the dead end as its only ghost.\<close>

definition gameStuck :: PacmanGame where
  "gameStuck = game0\<lparr>ghosts := [ghostStuck]\<rparr>"

text \<open>
  A ghost in the last open cell of the closed left end of row 14, where \<open>ghostStuck\<close> is,
  heading left at the normal ghost speed; and a session on the built-in maze whose only
  ghost is such a ghost and whose random source keeps returning 0.5.
\<close>

definition atDeadEnd :: "Ghost \<Rightarrow> bool" where
  "atDeadEnd ghost =
     (gx ghost = 22 \<and> gy ghost = 290 \<and> gdirection ghost = 2 \<and> gsize ghost = 8
      \<and> gspeed ghost = 160 \<and> \<not> inGhostHouse ghost)"

definition stalledSession :: "PacmanGame \<Rightarrow> bool" where
  "stalledSession g =
     (gameMap g = createDefaultMap \<and> GRID_SIZE g = 20 \<and> tunnelRows g = {}
      \<and> rnd g = (\<lambda>n. 1 / 2) \<and> length (ghosts g) = 1 \<and> atDeadEnd (ghosts g ! 0))"

section \<open>Properties\<close>

subsection \<open>The built-in maze\<close>

lemma length_ascii: "length ascii = 29"
  by (simp add: ascii_def)

lemma CLASSIC_ROWS_eq: "CLASSIC_ROWS = 29"
  by (simp add: CLASSIC_ROWS_def length_ascii)

lemma CLASSIC_COLS_eq: "CLASSIC_COLS = 28"
  by (simp add: CLASSIC_COLS_def ascii_def)

lemma ascii_border: "list_all (\<lambda>row. row ! 0 = CHR ''#'' \<and> row ! 27 = CHR ''#'') ascii"
  by (simp add: ascii_def)

lemma length_createDefaultMap: "length createDefaultMap = 29"
  by (simp add: createDefaultMap_def CLASSIC_ROWS_eq)

lemma createDefaultMap_cell:
  "y < 29 \<Longrightarrow> x < 28 \<Longrightarrow> createDefaultMap ! y ! x = cellOfChar (ascii ! y ! x)"
  by (simp add: createDefaultMap_def CLASSIC_ROWS_eq CLASSIC_COLS_eq)

lemma createDefaultMap_row_length: "y < 29 \<Longrightarrow> length (createDefaultMap ! y) = 28"
  by (simp add: createDefaultMap_def CLASSIC_ROWS_eq CLASSIC_COLS_eq)

lemma createDefaultMap_border:
  "y < 29 \<Longrightarrow> createDefaultMap ! y ! 0 = 1 \<and> createDefaultMap ! y ! 27 = 1"
  using ascii_border length_ascii
  by (simp add: createDefaultMap_cell list_all_length cellOfChar_def)

lemma tunnelRowsOf_createDefaultMap: "tunnelRowsOf createDefaultMap = {}"
  by (auto simp: tunnelRowsOf_def length_createDefaultMap createDefaultMap_border)

lemma tunnelRows_resetPositions [simp]: "tunnelRows (resetPositions g) = tunnelRows g"
  by (simp add: resetPositions_def)

lemma no_tunnel_no_pacman_wrap: "tunnelRows g = {} \<Longrightarrow> pacmanTunnelWrap g = None"
  by (simp add: pacmanTunnelWrap_def Let_def)

lemma no_tunnel_no_ghost_wrap: "tunnelRows g = {} \<Longrightarrow> ghostTunnelWrap g ghost deltaTime = None"
  by (simp add: ghostTunnelWrap_def Let_def split: prod.splits)

text \<open>
  C10. In the built-in maze every row begins and ends with a wall cell, so the set of
  tunnel rows computed from it is empty; \<^verbatim>\<open>restart\<close> and \<^verbatim>\<open>nextLevel\<close>, which reload
  the maze, store that empty set; and in any session whose tunnel rows are those of the
  built-in maze neither the protagonist's nor a ghost's wrap-around block fires, whatever
  the position, the direction and the time step.
\<close>

theorem default_map_has_no_tunnel:
  "list_all (\<lambda>row. row ! 0 = 1 \<and> row ! (length (createDefaultMap ! 0) - 1) = 1) createDefaultMap
   \<and> tunnelRowsOf createDefaultMap = {}
   \<and> tunnelRows (restart g') = {}
   \<and> tunnelRows (nextLevel g') = {}
   \<and> (tunnelRows g = tunnelRowsOf createDefaultMap \<longrightarrow>
        pacmanTunnelWrap g = None \<and> ghostTunnelWrap g ghost deltaTime = None)"
proof -
  have "list_all (\<lambda>row. row ! 0 = 1 \<and> row ! (length (createDefaultMap ! 0) - 1) = 1) createDefaultMap"
    by (simp add: list_all_length length_createDefaultMap createDefaultMap_row_length
        createDefaultMap_border)
  moreover have "tunnelRows (restart g') = {}"
    by (simp add: restart_def updateTunnelRows_def countPellets_def initializeGameObjects_def
        Let_def tunnelRowsOf_createDefaultMap)
  moreover have "tunnelRows (nextLevel g') = {}"
    by (simp add: nextLevel_def updateTunnelRows_def countPellets_def
        tunnelRowsOf_createDefaultMap)
  ultimately show ?thesis
    by (simp add: tunnelRowsOf_createDefaultMap no_tunnel_no_pacman_wrap no_tunnel_no_ghost_wrap)
qed

theorem default_map_has_no_tunnel_witness:
  "tunnelRows game0 = tunnelRowsOf createDefaultMap
   \<and> pacmanTunnelWrap game0 = None \<and> ghostTunnelWrap game0 ghost0 (1 / 60) = None"
proof -
  have h: "tunnelRows game0 = tunnelRowsOf createDefaultMap"
    by (simp add: game0_def)
  with default_map_has_no_tunnel [of game0 game0 ghost0 "1 / 60"] show ?thesis
    by blast
qed

subsection \<open>Collisions: what the ghost loop leaves alone\<close>

lemma length_resetGhostPositions [simp]: "length (resetGhostPositions gs k xs) = length xs"
  by (induction xs arbitrary: k) auto

lemma nth_resetGhostPositions:
  "j < length xs \<Longrightarrow>
   resetGhostPositions gs k xs ! j = (xs ! j)\<lparr>gx := gs * (5 + real (k + j)), gy := gs * 5\<rparr>"
proof (induction xs arbitrary: k j)
  case Nil
  then show ?case by simp
next
  case (Cons x xs)
  show ?case
  proof (cases j)
    case 0
    then show ?thesis by simp
  next
    case (Suc j')
    with Cons.prems have "j' < length xs" by simp
    from Cons.IH [OF this, of "Suc k"] Suc show ?thesis by simp
  qed
qed

lemma length_ghosts_collideGhost [simp]: "length (ghosts (collideGhost i g)) = length (ghosts g)"
  by (simp add: collideGhost_def Let_def resetPositions_def)

lemma fold_collideGhost_keeps:
  assumes "\<And>i g. f (collideGhost i g) = f g"
  shows "f (fold collideGhost is g) = f g"
  using assms by (induction "is" arbitrary: g) auto

lemma collideGhost_gameMap [simp]: "gameMap (collideGhost i g) = gameMap g"
  by (simp add: collideGhost_def Let_def resetPositions_def)

lemma collideGhost_pellets [simp]:
  "pelletsRemaining (state (collideGhost i g)) = pelletsRemaining (state g)"
  by (simp add: collideGhost_def Let_def resetPositions_def addScore_def loseLife_def)

lemma collideGhost_power [simp]:
  "powerPelletActive (state (collideGhost i g)) = powerPelletActive (state g)"
  "powerPelletTimer (state (collideGhost i g)) = powerPelletTimer (state g)"
  by (simp_all add: collideGhost_def Let_def resetPositions_def addScore_def loseLife_def)

lemma collideGhost_level [simp]: "level (state (collideGhost i g)) = level (state g)"
  by (simp add: collideGhost_def Let_def resetPositions_def addScore_def loseLife_def)

lemma map_ghostCore_reset:
  "map ghostCore (resetGhostPositions gs k xs) = map ghostCore xs"
  by (induction xs arbitrary: k) (auto simp: ghostCore_def)

lemma map_ghostCore_update:
  "map ghostCore (xs[i := (xs ! i)\<lparr>gx := a, gy := b\<rparr>]) = map ghostCore xs"
  by (induction xs arbitrary: i) (auto simp: ghostCore_def split: nat.splits)

lemma collideGhost_core [simp]:
  "map ghostCore (ghosts (collideGhost i g)) = map ghostCore (ghosts g)"
  by (simp add: collideGhost_def Let_def resetPositions_def map_ghostCore_reset map_ghostCore_update)

lemma ghostCore_fields:
  "mode (ghostCore gh) = mode gh" "gspeed (ghostCore gh) = gspeed gh"
  "gdirection (ghostCore gh) = gdirection gh" "inGhostHouse (ghostCore gh) = inGhostHouse gh"
  "scatterTimer (ghostCore gh) = scatterTimer gh" "chaseTimer (ghostCore gh) = chaseTimer gh"
  by (simp_all add: ghostCore_def)

lemma same_core_nth:
  assumes "map ghostCore xs = map ghostCore ys" "i < length ys"
  shows "mode (xs ! i) = mode (ys ! i) \<and> gspeed (xs ! i) = gspeed (ys ! i)
       \<and> gdirection (xs ! i) = gdirection (ys ! i) \<and> inGhostHouse (xs ! i) = inGhostHouse (ys ! i)
       \<and> scatterTimer (xs ! i) = scatterTimer (ys ! i) \<and> chaseTimer (xs ! i) = chaseTimer (ys ! i)"
proof -
  from assms have len: "length xs = length ys" by (metis length_map)
  with assms have "ghostCore (xs ! i) = ghostCore (ys ! i)"
    by (metis nth_map)
  then show ?thesis by (metis ghostCore_fields)
qed

lemma fold_collideGhost_no_contact:
  "\<forall>i \<in> set is. \<not> inContact (pacman g) (ghosts g ! i) \<Longrightarrow> fold collideGhost is g = g"
  by (induction "is" arbitrary: g) (auto simp: collideGhost_def)

lemma score_collideGhost_mono: "score (state g) \<le> score (state (collideGhost i g))"
  by (simp add: collideGhost_def Let_def resetPositions_def addScore_def loseLife_def)

lemma score_fold_collideGhost_mono: "score (state g) \<le> score (state (fold collideGhost is g))"
proof (induction "is" arbitrary: g)
  case Nil
  then show ?case by simp
next
  case (Cons i "is")
  have "score (state g) \<le> score (state (collideGhost i g))" by (rule score_collideGhost_mono)
  also have "\<dots> \<le> score (state (fold collideGhost is (collideGhost i g)))" by (rule Cons.IH)
  finally show ?case by simp
qed

lemma inContact_frightenGhost [simp]: "inContact p (frightenGhost gh) = inContact p gh"
  by (simp add: inContact_def frightenGhost_def)

lemma collectPellet_power:
  assumes "cellUnderPacman g = Some 3"
  shows "collectPellet g =
     g\<lparr>gameMap := setCell (gameMap g) (nat \<lfloor>py (pacman g) / GRID_SIZE g\<rfloor>)
                      (nat \<lfloor>px (pacman g) / GRID_SIZE g\<rfloor>) 0,
       state := (addScore 50 (state g))\<lparr>pelletsRemaining := pelletsRemaining (state g) - 1,
                                       powerPelletActive := True, powerPelletTimer := 8\<rparr>,
       ghosts := map frightenGhost (ghosts g)\<rparr>"
  using assms by (simp add: cellUnderPacman_def collectPellet_def Let_def split: if_splits)

lemma checkCollisions_core:
  "map ghostCore (ghosts (checkCollisions g)) = map ghostCore (ghosts (collectPellet g))"
  unfolding checkCollisions_def Let_def
  by (rule fold_collideGhost_keeps [where f = "\<lambda>g. map ghostCore (ghosts g)"]) simp

lemma checkCollisions_power:
  "powerPelletActive (state (checkCollisions g)) = powerPelletActive (state (collectPellet g))"
  "powerPelletTimer (state (checkCollisions g)) = powerPelletTimer (state (collectPellet g))"
  unfolding checkCollisions_def Let_def
  by (rule fold_collideGhost_keeps [where f = "\<lambda>g. powerPelletActive (state g)"], simp,
      rule fold_collideGhost_keeps [where f = "\<lambda>g. powerPelletTimer (state g)"], simp)

lemma length_ghosts_checkCollisions:
  "length (ghosts (checkCollisions g)) = length (ghosts (collectPellet g))"
  unfolding checkCollisions_def Let_def
  by (rule fold_collideGhost_keeps [where f = "\<lambda>g. length (ghosts g)"]) simp

lemma collideGhost_with_power:
  assumes "powerPelletActive (state g)"
  shows "pacman (collideGhost i g) = pacman g"
    and "score (state (collideGhost i g)) =
           score (state g) + (if inContact (pacman g) (ghosts g ! i) then 200 else 0)"
    and "j \<noteq> i \<Longrightarrow> ghosts (collideGhost i g) ! j = ghosts g ! j"
  using assms by (simp_all add: collideGhost_def Let_def addScore_def)

lemma fold_collideGhost_power_score:
  assumes "powerPelletActive (state g)" "distinct is"
  shows "score (state (fold collideGhost is g)) =
           score (state g)
             + 200 * int (length (filter (\<lambda>i. inContact (pacman g) (ghosts g ! i)) is))"
  using assms
proof (induction "is" arbitrary: g)
  case Nil
  then show ?case by simp
next
  case (Cons i "is")
  let ?g' = "collideGhost i g"
  have p': "powerPelletActive (state ?g')" using Cons.prems(1) by simp
  have d: "distinct is" "i \<notin> set is" using Cons.prems(2) by simp_all
  note st = collideGhost_with_power [OF Cons.prems(1), where i = i]
  have same: "filter (\<lambda>j. inContact (pacman ?g') (ghosts ?g' ! j)) is
            = filter (\<lambda>j. inContact (pacman g) (ghosts g ! j)) is"
  proof (rule filter_cong [OF refl])
    fix j assume "j \<in> set is"
    with d have "j \<noteq> i" by auto
    then have "ghosts ?g' ! j = ghosts g ! j" by (rule st(3))
    then show "inContact (pacman ?g') (ghosts ?g' ! j) = inContact (pacman g) (ghosts g ! j)"
      by (simp add: st(1))
  qed
  have "score (state (fold collideGhost (i # is) g)) = score (state (fold collideGhost is ?g'))"
    by simp
  also have "\<dots> = score (state ?g')
      + 200 * int (length (filter (\<lambda>j. inContact (pacman ?g') (ghosts ?g' ! j)) is))"
    by (rule Cons.IH [OF p' d(1)])
  finally show ?case
    by (simp add: same st(2))
qed

lemma checkCollisions_power_score:
  assumes cell: "cellUnderPacman g = Some 3"
  shows "score (state (checkCollisions g)) =
           score (state g) + 50
             + 200 * int (length (filter (\<lambda>i. inContact (pacman g) (ghosts g ! i))
                                     [0..<length (ghosts g)]))"
proof -
  let ?g1 = "collectPellet g"
  note cp = collectPellet_power [OF cell]
  have g1: "ghosts ?g1 = map frightenGhost (ghosts g)" "pacman ?g1 = pacman g"
    "powerPelletActive (state ?g1)" "score (state ?g1) = score (state g) + 50"
    by (subst cp, simp add: addScore_def)+
  have same: "filter (\<lambda>i. inContact (pacman ?g1) (ghosts ?g1 ! i)) [0..<length (ghosts g)]
            = filter (\<lambda>i. inContact (pacman g) (ghosts g ! i)) [0..<length (ghosts g)]"
    by (rule filter_cong [OF refl]) (simp add: g1)
  have "score (state (checkCollisions g)) =
      score (state ?g1)
        + 200 * int (length (filter (\<lambda>i. inContact (pacman ?g1) (ghosts ?g1 ! i))
                               [0..<length (ghosts ?g1)]))"
    unfolding checkCollisions_def Let_def
    by (rule fold_collideGhost_power_score [OF g1(3)]) simp
  then show ?thesis
    using same by (simp add: g1)
qed

text \<open>
  C2 (as the code has it). When the cell under the protagonist is a power pellet
  (code 3), the pellet part of \<^verbatim>\<open>checkCollisions\<close> adds exactly 50 to the score; the
  whole call adds exactly 50 plus 200 for every ghost in contact with the protagonist
  (the ghost loop runs with the power state already active), hence exactly 50 when no
  ghost is in contact. After \<^verbatim>\<open>checkCollisions\<close> the power state is active with its
  countdown at 8 seconds; every ghost that is neither waiting in the ghost house nor dead
  is frightened, has speed 0.6 times \<^verbatim>\<open>GAME_SPEED\<close> (the base speed constant) and the
  reverse heading \<open>(direction + 2) mod 4\<close>; a ghost that is waiting or dead is left as it
  was by the pellet part, and keeps its mode, speed and heading through the whole call.
\<close>

theorem power_pellet_activation:
  assumes cell: "cellUnderPacman g = Some 3"
  shows "score (state (collectPellet g)) = score (state g) + 50
    \<and> ((\<forall>i < length (ghosts g). \<not> inContact (pacman g) (ghosts g ! i)) \<longrightarrow>
          score (state (checkCollisions g)) = score (state g) + 50)
    \<and> powerPelletActive (state (checkCollisions g))
    \<and> powerPelletTimer (state (checkCollisions g)) = 8
    \<and> length (ghosts (checkCollisions g)) = length (ghosts g)
    \<and> (\<forall>i < length (ghosts g).
          (\<not> inGhostHouse (ghosts g ! i) \<and> mode (ghosts g ! i) \<noteq> Dead \<longrightarrow>
             mode (ghosts (checkCollisions g) ! i) = Frightened
             \<and> gspeed (ghosts (checkCollisions g) ! i) = 0.6 * GAME_SPEED
             \<and> gdirection (ghosts (checkCollisions g) ! i) = (gdirection (ghosts g ! i) + 2) mod 4)
        \<and> (inGhostHouse (ghosts g ! i) \<or> mode (ghosts g ! i) = Dead \<longrightarrow>
             ghosts (collectPellet g) ! i = ghosts g ! i
             \<and> mode (ghosts (checkCollisions g) ! i) = mode (ghosts g ! i)
             \<and> gspeed (ghosts (checkCollisions g) ! i) = gspeed (ghosts g ! i)
             \<and> gdirection (ghosts (checkCollisions g) ! i) = gdirection (ghosts g ! i)))
    \<and> score (state (checkCollisions g)) =
          score (state g) + 50
            + 200 * int (length (filter (\<lambda>i. inContact (pacman g) (ghosts g ! i))
                                    [0..<length (ghosts g)]))"
proof -
  let ?g1 = "collectPellet g"
  note cp = collectPellet_power [OF cell]
  have ghosts1: "ghosts ?g1 = map frightenGhost (ghosts g)"
    by (subst cp) simp
  have pac1: "pacman ?g1 = pacman g"
    by (subst cp) simp
  have score1: "score (state ?g1) = score (state g) + 50"
    by (subst cp) (simp add: addScore_def)
  have nocontact: "score (state (checkCollisions g)) = score (state g) + 50"
    if "\<forall>i < length (ghosts g). \<not> inContact (pacman g) (ghosts g ! i)"
  proof -
    from that have "\<forall>i \<in> set [0..<length (ghosts ?g1)]. \<not> inContact (pacman ?g1) (ghosts ?g1 ! i)"
      by (simp add: ghosts1 pac1)
    then have "checkCollisions g = ?g1"
      unfolding checkCollisions_def Let_def by (rule fold_collideGhost_no_contact)
    with score1 show ?thesis by simp
  qed
  have act: "powerPelletActive (state (checkCollisions g))"
    unfolding checkCollisions_power by (subst cp) simp
  have tm: "powerPelletTimer (state (checkCollisions g)) = 8"
    unfolding checkCollisions_power by (subst cp) simp
  have len: "length (ghosts (checkCollisions g)) = length (ghosts g)"
    by (simp add: length_ghosts_checkCollisions ghosts1)
  have each: "mode (ghosts (checkCollisions g) ! i) = mode (frightenGhost (ghosts g ! i))
      \<and> gspeed (ghosts (checkCollisions g) ! i) = gspeed (frightenGhost (ghosts g ! i))
      \<and> gdirection (ghosts (checkCollisions g) ! i) = gdirection (frightenGhost (ghosts g ! i))"
    if "i < length (ghosts g)" for i
  proof -
    from that have "i < length (ghosts ?g1)" by (simp add: ghosts1)
    from same_core_nth [OF checkCollisions_core this] that show ?thesis
      by (simp add: ghosts1)
  qed
  have fr: "i < length (ghosts g) \<Longrightarrow> ghosts ?g1 ! i = frightenGhost (ghosts g ! i)" for i
    by (simp add: ghosts1)
  have "(\<forall>i < length (ghosts g).
          (\<not> inGhostHouse (ghosts g ! i) \<and> mode (ghosts g ! i) \<noteq> Dead \<longrightarrow>
             mode (ghosts (checkCollisions g) ! i) = Frightened
             \<and> gspeed (ghosts (checkCollisions g) ! i) = 0.6 * GAME_SPEED
             \<and> gdirection (ghosts (checkCollisions g) ! i) = (gdirection (ghosts g ! i) + 2) mod 4)
        \<and> (inGhostHouse (ghosts g ! i) \<or> mode (ghosts g ! i) = Dead \<longrightarrow>
             ghosts (collectPellet g) ! i = ghosts g ! i
             \<and> mode (ghosts (checkCollisions g) ! i) = mode (ghosts g ! i)
             \<and> gspeed (ghosts (checkCollisions g) ! i) = gspeed (ghosts g ! i)
             \<and> gdirection (ghosts (checkCollisions g) ! i) = gdirection (ghosts g ! i)))"
    by (auto simp: each fr frightenGhost_def)
  with score1 nocontact act tm len checkCollisions_power_score [OF cell]
  show ?thesis by blast
qed

lemma far_apart_no_contact:
  assumes "(psize p + gsize ghost)\<^sup>2 \<le> (px p - gx ghost) * (px p - gx ghost) + (py p - gy ghost) * (py p - gy ghost)"
    and "0 \<le> psize p + gsize ghost"
  shows "\<not> inContact p ghost"
proof -
  from assms(1) have "psize p + gsize ghost
      \<le> sqrt ((px p - gx ghost) * (px p - gx ghost) + (py p - gy ghost) * (py p - gy ghost))"
    by (rule real_le_rsqrt)
  then show ?thesis by (simp add: inContact_def Let_def)
qed

lemma gamePower_no_contact:
  "\<forall>i < length (ghosts gamePower). \<not> inContact (pacman gamePower) (ghosts gamePower ! i)"
proof -
  have gh: "ghosts gamePower = [ghost0, ghostInHouse, ghostDead]"
    "pacman gamePower = pacman0\<lparr>py := 70, pgridY := 3\<rparr>"
    by (simp_all add: gamePower_def game0_def)
  have "\<not> inContact (pacman gamePower) ghost0" "\<not> inContact (pacman gamePower) ghostInHouse"
    "\<not> inContact (pacman gamePower) ghostDead"
    by (rule far_apart_no_contact;
        simp add: gh pacman0_def ghost0_def ghostInHouse_def ghostDead_def power2_eq_square)+
  then show ?thesis
    by (simp add: gh less_Suc_eq numeral_3_eq_3 all_conj_distrib nth_Cons')
qed

theorem power_pellet_activation_witness:
  "cellUnderPacman gamePower = Some 3
   \<and> score (state (collectPellet gamePower)) = 50
   \<and> score (state (checkCollisions gamePower)) = 50
   \<and> powerPelletActive (state (checkCollisions gamePower))
   \<and> powerPelletTimer (state (checkCollisions gamePower)) = 8
   \<and> mode (ghosts (checkCollisions gamePower) ! 0) = Frightened
   \<and> gspeed (ghosts (checkCollisions gamePower) ! 0) = 120
   \<and> gdirection (ghosts (checkCollisions gamePower) ! 0) = 2
   \<and> mode (ghosts (checkCollisions gamePower) ! 1) = Scatter
   \<and> mode (ghosts (checkCollisions gamePower) ! 2) = Dead"
proof -
  have c: "cellUnderPacman gamePower = Some 3"
    by (simp add: cellUnderPacman_def gamePower_def game0_def pacman0_def
        length_createDefaultMap createDefaultMap_row_length createDefaultMap_cell
        ascii_def cellOfChar_def)
  have gh: "ghosts gamePower = [ghost0, ghostInHouse, ghostDead]"
    "score (state gamePower) = 0"
    by (simp_all add: gamePower_def game0_def state0_def)
  have f: "\<not> inGhostHouse ghost0" "mode ghost0 \<noteq> Dead" "gdirection ghost0 = 0"
    "inGhostHouse ghostInHouse" "mode ghostInHouse = Scatter" "mode ghostDead = Dead"
    by (simp_all add: ghost0_def ghostInHouse_def ghostDead_def)
  from power_pellet_activation [OF c] have
    "score (state (collectPellet gamePower)) = score (state gamePower) + 50"
    "(\<forall>i < length (ghosts gamePower). \<not> inContact (pacman gamePower) (ghosts gamePower ! i)) \<longrightarrow>
          score (state (checkCollisions gamePower)) = score (state gamePower) + 50"
    "powerPelletActive (state (checkCollisions gamePower))"
    "powerPelletTimer (state (checkCollisions gamePower)) = 8"
    and allg: "\<forall>i < length (ghosts gamePower).
          (\<not> inGhostHouse (ghosts gamePower ! i) \<and> mode (ghosts gamePower ! i) \<noteq> Dead \<longrightarrow>
             mode (ghosts (checkCollisions gamePower) ! i) = Frightened
             \<and> gspeed (ghosts (checkCollisions gamePower) ! i) = 0.6 * GAME_SPEED
             \<and> gdirection (ghosts (checkCollisions gamePower) ! i) = (gdirection (ghosts gamePower ! i) + 2) mod 4)
        \<and> (inGhostHouse (ghosts gamePower ! i) \<or> mode (ghosts gamePower ! i) = Dead \<longrightarrow>
             ghosts (collectPellet gamePower) ! i = ghosts gamePower ! i
             \<and> mode (ghosts (checkCollisions gamePower) ! i) = mode (ghosts gamePower ! i)
             \<and> gspeed (ghosts (checkCollisions gamePower) ! i) = gspeed (ghosts gamePower ! i)
             \<and> gdirection (ghosts (checkCollisions gamePower) ! i) = gdirection (ghosts gamePower ! i))"
    by blast+
  moreover from allg [rule_format, of 0] f gh
  have "mode (ghosts (checkCollisions gamePower) ! 0) = Frightened
     \<and> gspeed (ghosts (checkCollisions gamePower) ! 0) = 120
     \<and> gdirection (ghosts (checkCollisions gamePower) ! 0) = 2"
    by (simp add: GAME_SPEED_def)
  moreover from allg [rule_format, of 1] f gh
  have "mode (ghosts (checkCollisions gamePower) ! 1) = Scatter" by simp
  moreover from allg [rule_format, of 2] f gh
  have "mode (ghosts (checkCollisions gamePower) ! 2) = Dead" by simp
  ultimately show ?thesis using c gh gamePower_no_contact by simp
qed

text \<open>
  C2 as stated fails in its first part: with a ghost on the protagonist's position when
  the power pellet is taken, the same call of \<^verbatim>\<open>checkCollisions\<close> frightens the ghost
  and then captures it, and the score goes up by 250, not 50.
\<close>

theorem power_pellet_tick_adds_50_counterexample:
  "cellUnderPacman gamePowerContact = Some 3
   \<and> score (state (checkCollisions gamePowerContact)) = score (state gamePowerContact) + 250"
proof -
  have c: "cellUnderPacman gamePowerContact = Some 3"
    by (simp add: cellUnderPacman_def gamePowerContact_def gamePower_def game0_def pacman0_def
        length_createDefaultMap createDefaultMap_row_length createDefaultMap_cell
        ascii_def cellOfChar_def)
  have t: "inContact (pacman gamePowerContact) (ghosts gamePowerContact ! 0)"
    "length (ghosts gamePowerContact) = 1"
    by (simp_all add: gamePowerContact_def gamePower_def game0_def pacman0_def ghost0_def
        inContact_def)
  from checkCollisions_power_score [OF c] t show ?thesis
    using c by simp
qed

lemma collectPellet_other:
  assumes "cellUnderPacman g \<noteq> Some 2" "cellUnderPacman g \<noteq> Some 3"
  shows "collectPellet g = g"
  using assms by (auto simp: cellUnderPacman_def collectPellet_def Let_def split: if_splits)

subsection \<open>Contact between the protagonist and a ghost\<close>






subsection \<open>Fright and the scatter/chase timers\<close>

lemma chooseGhostDirection_only_direction:
  "\<exists>d. fst (chooseGhostDirection g ghost t r) = ghost\<lparr>gdirection := d\<rparr>"
  by (auto simp: chooseGhostDirection_def split: prod.splits)

lemma chooseGhostDirection_keeps:
  "mode (fst (chooseGhostDirection g ghost t r)) = mode ghost"
  "scatterTimer (fst (chooseGhostDirection g ghost t r)) = scatterTimer ghost"
  "chaseTimer (fst (chooseGhostDirection g ghost t r)) = chaseTimer ghost"
  "gx (fst (chooseGhostDirection g ghost t r)) = gx ghost"
  "gy (fst (chooseGhostDirection g ghost t r)) = gy ghost"
  by (simp_all add: chooseGhostDirection_def split: prod.splits)

lemma updateGhostAI_frightened:
  assumes "mode ghost = Frightened"
  shows "mode (fst (updateGhostAI g ghost dt r)) = Frightened
       \<and> scatterTimer (fst (updateGhostAI g ghost dt r)) = scatterTimer ghost
       \<and> chaseTimer (fst (updateGhostAI g ghost dt r)) = chaseTimer ghost"
  using assms
  by (simp add: updateGhostAI_def updateModeTimers_def Let_def chooseGhostDirection_keeps
      split: prod.splits)

lemma ghostTunnelWrap_keeps:
  "ghostTunnelWrap g ghost dt = Some w \<Longrightarrow>
   mode w = mode ghost \<and> scatterTimer w = scatterTimer ghost \<and> chaseTimer w = chaseTimer ghost"
  by (auto simp: ghostTunnelWrap_def Let_def split: if_splits prod.splits)

lemma moveGhost_keeps:
  "mode (fst (moveGhost g ghost dt r)) = mode ghost
   \<and> scatterTimer (fst (moveGhost g ghost dt r)) = scatterTimer ghost
   \<and> chaseTimer (fst (moveGhost g ghost dt r)) = chaseTimer ghost"
  by (auto simp: moveGhost_def Let_def chooseGhostDirection_keeps
      dest: ghostTunnelWrap_keeps split: option.splits prod.splits)

lemma updateGhost_frightened:
  assumes "mode ghost = Frightened" "\<not> inGhostHouse ghost"
  shows "mode (fst (updateGhost g dt ghost r)) = Frightened
       \<and> scatterTimer (fst (updateGhost g dt ghost r)) = scatterTimer ghost
       \<and> chaseTimer (fst (updateGhost g dt ghost r)) = chaseTimer ghost"
proof -
  let ?gh1 = "leaveGhostHouse g dt ghost"
  have m: "mode ?gh1 = Frightened" "\<not> inGhostHouse ?gh1"
    "scatterTimer ?gh1 = scatterTimer ghost" "chaseTimer ?gh1 = chaseTimer ghost"
    using assms by (simp_all add: leaveGhostHouse_def Let_def)
  obtain gh3 r1 where ai: "updateGhostAI g ?gh1 dt r = (gh3, r1)" by (cases "updateGhostAI g ?gh1 dt r")
  from updateGhostAI_frightened [OF m(1), of g dt r] ai m
  have gh3: "mode gh3 = Frightened" "scatterTimer gh3 = scatterTimer ghost"
    "chaseTimer gh3 = chaseTimer ghost" by simp_all
  have "updateGhost g dt ghost r = moveGhost g gh3 dt r1"
    using m ai by (simp add: updateGhost_def Let_def)
  with moveGhost_keeps [of g gh3 dt r1] gh3 show ?thesis by simp
qed

subsection \<open>The patrol ghost's retreat\<close>

lemma patrol_chase_target:
  assumes "mode ghost = Chase" "personality ghost = ''patrol''"
  shows "fst (getGhostTarget g ghost r) =
     (if sqrt ((px (pacman g) - gx ghost)\<^sup>2 + (py (pacman g) - gy ghost)\<^sup>2) > 8 * GRID_SIZE g
      then (px (pacman g), py (pacman g))
      else (40, CANVAS_HEIGHT g - 40))"
  using assms by (simp add: getGhostTarget_def Let_def)

lemma inky_scatter_target:
  assumes "mode ghost = Scatter" "gname ghost = ''Inky''"
  shows "fst (getGhostTarget g ghost r) = (CANVAS_WIDTH g - 40, CANVAS_HEIGHT g - 40)"
  using assms by (simp add: getGhostTarget_def Let_def corners_def)

text \<open>The class in \<^verbatim>\<open>ghost.js\<close> does retreat to the ghost's own home corner.\<close>

lemma ghost_js_patrol_retreats_home:
  assumes "opersonality this = ''patrol''"
  shows "otarget (fst (updateChaseTarget g p this r)) =
     (if sqrt ((px p - ox this)\<^sup>2 + (py p - oy this)\<^sup>2) > GRID_SIZE g * 8
      then (px p, py p) else homeCorner this)"
  using assms by (simp add: updateChaseTarget_def Let_def)

lemma canvas_game0: "CANVAS_WIDTH game0 = 560" "CANVAS_HEIGHT game0 = 580"
  by (simp_all add: CANVAS_WIDTH_def CANVAS_HEIGHT_def CLASSIC_COLS_eq CLASSIC_ROWS_eq game0_def)

text \<open>
  C8 on the code: Inky, the patrol ghost, chasing at distance 0 from the protagonist (so
  within 8 cells) on a 20-pixel grid is sent to \<open>(40, 540)\<close>, the bottom-left corner,
  while its own scatter corner is \<open>(520, 540)\<close>, the bottom-right one.
\<close>

theorem patrol_retreat_is_not_home_corner:
  "gname ghost0 = ''Inky'' \<and> personality ghost0 = ''patrol'' \<and> mode ghost0 = Chase
   \<and> fst (getGhostTarget game0 ghost0 (rnd game0)) = (40, 540)
   \<and> fst (getGhostTarget game0 (ghost0\<lparr>mode := Scatter\<rparr>) (rnd game0)) = (520, 540)"
  by (simp add: getGhostTarget_def corners_def canvas_game0 Let_def)
     (simp add: ghost0_def game0_def pacman0_def)

subsection \<open>Game over and restart\<close>

lemma state_restart:
  "lives (state (restart g)) = 3 \<and> score (state (restart g)) = 0
   \<and> level (state (restart g)) = 1 \<and> current (state (restart g)) = Playing"
  by (simp add: restart_def updateTunnelRows_def countPellets_def initializeGameObjects_def
      Let_def reset_def)

text \<open>
  C9 (as the code has it). The keyboard restart command (key \<^verbatim>\<open>r\<close> or \<^verbatim>\<open>R\<close>) leaves
  the session as it is unless the phase is game over; \<^verbatim>\<open>loseLife\<close> takes one life and
  makes the phase game over when none is left; and a restart (from the keyboard at
  game over, or from anywhere) puts lives at 3, score at 0, level at 1 and the phase at
  playing.
\<close>

theorem keyboard_restart_only_at_game_over:
  "(current (state g) \<noteq> GameOver \<longrightarrow> handleKeyDown ''r'' g = g \<and> handleKeyDown ''R'' g = g)
   \<and> lives (loseLife s) = lives s - 1
   \<and> (lives s - 1 \<le> 0 \<longrightarrow> current (loseLife s) = GameOver)
   \<and> (lives s - 1 > 0 \<longrightarrow> current (loseLife s) = current s)
   \<and> (current (state g) = GameOver \<longrightarrow>
        lives (state (handleKeyDown ''r'' g)) = 3 \<and> score (state (handleKeyDown ''r'' g)) = 0
      \<and> level (state (handleKeyDown ''r'' g)) = 1
      \<and> current (state (handleKeyDown ''r'' g)) = Playing
      \<and> handleKeyDown ''R'' g = handleKeyDown ''r'' g)
   \<and> lives (state (restart g)) = 3 \<and> score (state (restart g)) = 0
   \<and> level (state (restart g)) = 1"
  using state_restart [of g]
  by (simp add: handleKeyDown_def loseLife_def Let_def)

theorem keyboard_restart_only_at_game_over_witness:
  "current (state gameScored) \<noteq> GameOver
   \<and> handleKeyDown ''r'' gameScored = gameScored
   \<and> lives (state gameHit) - 1 \<le> 0
   \<and> current (loseLife (state gameHit)) = GameOver
   \<and> lives (state gameScored) - 1 > 0
   \<and> current (loseLife (state gameScored)) = Playing
   \<and> current (state (gameHit\<lparr>state := loseLife (state gameHit)\<rparr>)) = GameOver
   \<and> lives (state (handleKeyDown ''r'' (gameHit\<lparr>state := loseLife (state gameHit)\<rparr>))) = 3
   \<and> score (state (handleKeyDown ''r'' (gameHit\<lparr>state := loseLife (state gameHit)\<rparr>))) = 0
   \<and> level (state (handleKeyDown ''r'' (gameHit\<lparr>state := loseLife (state gameHit)\<rparr>))) = 1"
proof -
  have a: "current (state gameScored) \<noteq> GameOver" "lives (state gameScored) - 1 > 0"
    "current (state gameScored) = Playing"
    by (simp_all add: gameScored_def game0_def state0_def)
  have b: "lives (state gameHit) - 1 \<le> 0"
    by (simp add: gameHit_def state0_def)
  from keyboard_restart_only_at_game_over [of gameScored "state gameScored"] a
  have 1: "handleKeyDown ''r'' gameScored = gameScored
      \<and> current (loseLife (state gameScored)) = Playing"
    by simp
  from keyboard_restart_only_at_game_over [of gameHit "state gameHit"] b
  have 2: "current (loseLife (state gameHit)) = GameOver" by blast
  then have c: "current (state (gameHit\<lparr>state := loseLife (state gameHit)\<rparr>)) = GameOver"
    by simp
  from keyboard_restart_only_at_game_over
         [of "gameHit\<lparr>state := loseLife (state gameHit)\<rparr>" "state gameHit"] c
  have 3: "lives (state (handleKeyDown ''r'' (gameHit\<lparr>state := loseLife (state gameHit)\<rparr>))) = 3
    \<and> score (state (handleKeyDown ''r'' (gameHit\<lparr>state := loseLife (state gameHit)\<rparr>))) = 0
    \<and> level (state (handleKeyDown ''r'' (gameHit\<lparr>state := loseLife (state gameHit)\<rparr>))) = 1"
    by blast
  from a b 1 2 3 c show ?thesis by blast
qed

text \<open>
  C9 as stated fails: the restart button of the touch controls acts in any phase. In a
  session that is in play with 500 points at level 2 it resets the score and the level.
\<close>

theorem restart_only_at_game_over_counterexample:
  "current (state gameScored) = Playing \<and> score (state gameScored) = 500
   \<and> level (state gameScored) = 2
   \<and> score (state (btnRestartTouchstart gameScored)) = 0
   \<and> level (state (btnRestartTouchstart gameScored)) = 1"
  using state_restart [of gameScored]
  by (simp add: btnRestartTouchstart_def gameScored_def game0_def state0_def)

subsection \<open>Direction re-selection\<close>

lemma considerDirection_drawn:
  assumes "snd (snd d) = (gdirection ghost + 2) mod 4 \<longrightarrow> r = r0"
  shows "\<exists>r'. considerDirection g ghost tgt d (b, bd, r) =
                (fst (considerDrawn g ghost tgt (r0 0) d (b, bd)),
                 snd (considerDrawn g ghost tgt (r0 0) d (b, bd)), r')
             \<and> (snd (snd d) \<noteq> (gdirection ghost + 2) mod 4 \<longrightarrow> r' = r)"
  using assms
  by (cases d)
     (auto simp: considerDirection_def considerDrawn_def consideredDirection_def
       legalDirection_def random_def Let_def split: prod.splits option.splits)

lemma fold_considerDirection_drawn:
  assumes "distinct (map (\<lambda>d. snd (snd d)) ds)"
    and "(gdirection ghost + 2) mod 4 \<in> (\<lambda>d. snd (snd d)) ` set ds \<longrightarrow> r = r0"
  shows "\<exists>r'. fold (considerDirection g ghost tgt) ds (b, bd, r) =
           (fst (fold (considerDrawn g ghost tgt (r0 0)) ds (b, bd)),
            snd (fold (considerDrawn g ghost tgt (r0 0)) ds (b, bd)), r')"
  using assms
proof (induction ds arbitrary: b bd r)
  case Nil
  then show ?case by simp
next
  case (Cons d ds)
  from Cons.prems(2) have "snd (snd d) = (gdirection ghost + 2) mod 4 \<longrightarrow> r = r0" by simp
  from considerDirection_drawn [OF this, of g tgt b bd]
  obtain r' where step: "considerDirection g ghost tgt d (b, bd, r) =
                (fst (considerDrawn g ghost tgt (r0 0) d (b, bd)),
                 snd (considerDrawn g ghost tgt (r0 0) d (b, bd)), r')"
    and same: "snd (snd d) \<noteq> (gdirection ghost + 2) mod 4 \<longrightarrow> r' = r"
    by blast
  have dist: "distinct (map (\<lambda>d. snd (snd d)) ds)" using Cons.prems(1) by simp
  have "(gdirection ghost + 2) mod 4 \<in> (\<lambda>d. snd (snd d)) ` set ds \<longrightarrow> r' = r0"
  proof
    assume in_rest: "(gdirection ghost + 2) mod 4 \<in> (\<lambda>d. snd (snd d)) ` set ds"
    with Cons.prems(1) have "snd (snd d) \<noteq> (gdirection ghost + 2) mod 4"
      by (metis distinct.simps(2) list.simps(9) set_map)
    with same have "r' = r" by simp
    moreover from in_rest Cons.prems(2) have "r = r0" by simp
    ultimately show "r' = r0" by simp
  qed
  from Cons.IH [OF dist this, of "fst (considerDrawn g ghost tgt (r0 0) d (b, bd))"
      "snd (considerDrawn g ghost tgt (r0 0) d (b, bd))"] step
  show ?case by simp
qed

lemma first_min_intro:
  assumes "cs = pre @ d # post" "res = R d" "P pre d" "Q post d"
  shows "(cs = [] \<longrightarrow> res = z)
       \<and> (cs \<noteq> [] \<longrightarrow> (\<exists>pre d post. cs = pre @ d # post \<and> res = R d \<and> P pre d \<and> Q post d))"
  using assms by auto

lemma fold_considerDrawn_first_min:
  "let cs = filter (\<lambda>d. consideredDirection ghost a d \<and> legalDirection g ghost d) ds;
       res = fold (considerDrawn g ghost tgt a) ds (b0, None)
   in (cs = [] \<longrightarrow> res = (b0, None))
    \<and> (cs \<noteq> [] \<longrightarrow>
         (\<exists>pre d post. cs = pre @ d # post
            \<and> res = (snd (snd d), Some (distanceTo tgt (lookahead ghost d)))
            \<and> (\<forall>e \<in> set pre. distanceTo tgt (lookahead ghost d) < distanceTo tgt (lookahead ghost e))
            \<and> (\<forall>e \<in> set post. distanceTo tgt (lookahead ghost d) \<le> distanceTo tgt (lookahead ghost e))))"
proof (induction ds rule: rev_induct)
  case Nil
  then show ?case by simp
next
  case (snoc x xs)
  let ?ok = "\<lambda>d. consideredDirection ghost a d \<and> legalDirection g ghost d"
  let ?D = "\<lambda>d. distanceTo tgt (lookahead ghost d)"
  let ?cs = "filter ?ok xs"
  let ?res = "fold (considerDrawn g ghost tgt a) xs (b0, None)"
  let ?res' = "fold (considerDrawn g ghost tgt a) (xs @ [x]) (b0, None)"
  have fold_snoc: "?res' = considerDrawn g ghost tgt a x ?res" by simp
  show ?case
  proof (cases "?ok x")
    case False
    then have "filter ?ok (xs @ [x]) = ?cs" by simp
    moreover from False have "?res' = ?res"
      unfolding fold_snoc by (auto simp: considerDrawn_def)
    ultimately show ?thesis using snoc.IH by (simp only: Let_def)
  next
    case okx: True
    then have cs': "filter ?ok (xs @ [x]) = ?cs @ [x]" by simp
    show ?thesis
    proof (cases "?cs = []")
      case True
      with snoc.IH have "?res = (b0, None)" by (simp add: Let_def)
      with okx have r: "?res' = (snd (snd x), Some (?D x))"
        unfolding fold_snoc by (simp add: considerDrawn_def)
      from True cs' have c: "filter ?ok (xs @ [x]) = [] @ x # []" by simp
      show ?thesis unfolding Let_def
        by (rule first_min_intro [where pre = "[]" and d = x and post = "[]"
              and R = "\<lambda>d. (snd (snd d), Some (?D d))"
              and P = "\<lambda>pre d. \<forall>e \<in> set pre. ?D d < ?D e"
              and Q = "\<lambda>post d. \<forall>e \<in> set post. ?D d \<le> ?D e", OF c r]) simp_all
    next
      case False
      with snoc.IH obtain pre d post where
        dec: "?cs = pre @ d # post" and res: "?res = (snd (snd d), Some (?D d))"
        and lt: "\<forall>e \<in> set pre. ?D d < ?D e" and le: "\<forall>e \<in> set post. ?D d \<le> ?D e"
        unfolding Let_def by blast
      show ?thesis
      proof (cases "?D x < ?D d")
        case True
        with okx res have r: "?res' = (snd (snd x), Some (?D x))"
          unfolding fold_snoc by (simp add: considerDrawn_def)
        have all: "\<forall>e \<in> set ?cs. ?D x < ?D e"
          using True lt le unfolding dec by fastforce
        from cs' have c: "filter ?ok (xs @ [x]) = ?cs @ x # []" by simp
        show ?thesis unfolding Let_def
          by (rule first_min_intro [where pre = "?cs" and d = x and post = "[]"
                and R = "\<lambda>d. (snd (snd d), Some (?D d))"
                and P = "\<lambda>pre d. \<forall>e \<in> set pre. ?D d < ?D e"
                and Q = "\<lambda>post d. \<forall>e \<in> set post. ?D d \<le> ?D e", OF c r all]) simp
      next
        case False
        with okx res have r: "?res' = (snd (snd d), Some (?D d))"
          unfolding fold_snoc by (simp add: considerDrawn_def)
        have c: "filter ?ok (xs @ [x]) = pre @ d # (post @ [x])" using cs' dec by simp
        have le': "\<forall>e \<in> set (post @ [x]). ?D d \<le> ?D e" using le False by auto
        show ?thesis unfolding Let_def
          by (rule first_min_intro [where pre = pre and d = d and post = "post @ [x]"
                and R = "\<lambda>d. (snd (snd d), Some (?D d))"
                and P = "\<lambda>pre d. \<forall>e \<in> set pre. ?D d < ?D e"
                and Q = "\<lambda>post d. \<forall>e \<in> set post. ?D d \<le> ?D e", OF c r lt le'])
      qed
    qed
  qed
qed

lemma distinct_directionTable: "distinct (map (\<lambda>d. snd (snd d)) directionTable)"
  by (simp add: directionTable_def)

lemma chooseGhostDirection_drawn:
  "gdirection (fst (chooseGhostDirection g ghost targetOpt r)) =
   fst (fold (considerDrawn g ghost (fst (resolveTarget g ghost targetOpt r))
               (snd (resolveTarget g ghost targetOpt r) 0))
          directionTable (gdirection ghost, None))"
proof -
  obtain tgt r0 where tr: "resolveTarget g ghost targetOpt r = (tgt, r0)"
    by (cases "resolveTarget g ghost targetOpt r")
  from fold_considerDirection_drawn [OF distinct_directionTable, of ghost r0 r0 g tgt "gdirection ghost" None]
  obtain r' where "fold (considerDirection g ghost tgt) directionTable (gdirection ghost, None, r0) =
           (fst (fold (considerDrawn g ghost tgt (r0 0)) directionTable (gdirection ghost, None)),
            snd (fold (considerDrawn g ghost tgt (r0 0)) directionTable (gdirection ghost, None)), r')"
    by blast
  then show ?thesis by (simp add: chooseGhostDirection_def tr)
qed

lemma chooseGhostDirection_first_min:
  "let tr = resolveTarget g ghost targetOpt r;
       cs = candidates g ghost (snd tr 0);
       b = gdirection (fst (chooseGhostDirection g ghost targetOpt r))
   in (cs = [] \<longrightarrow> b = gdirection ghost)
    \<and> (cs \<noteq> [] \<longrightarrow>
         (\<exists>pre d post. cs = pre @ d # post \<and> b = snd (snd d)
            \<and> (\<forall>e \<in> set pre. distanceTo (fst tr) (lookahead ghost d)
                                < distanceTo (fst tr) (lookahead ghost e))
            \<and> (\<forall>e \<in> set post. distanceTo (fst tr) (lookahead ghost d)
                                 \<le> distanceTo (fst tr) (lookahead ghost e))))"
proof -
  define tr where "tr = resolveTarget g ghost targetOpt r"
  define cs where "cs = candidates g ghost (snd tr 0)"
  define res where
    "res = fold (considerDrawn g ghost (fst tr) (snd tr 0)) directionTable (gdirection ghost, None)"
  define b where "b = gdirection (fst (chooseGhostDirection g ghost targetOpt r))"
  have b: "b = fst res"
    unfolding b_def res_def tr_def by (rule chooseGhostDirection_drawn)
  have F: "(cs = [] \<longrightarrow> res = (gdirection ghost, None))
    \<and> (cs \<noteq> [] \<longrightarrow>
         (\<exists>pre d post. cs = pre @ d # post
            \<and> res = (snd (snd d), Some (distanceTo (fst tr) (lookahead ghost d)))
            \<and> (\<forall>e \<in> set pre. distanceTo (fst tr) (lookahead ghost d)
                                < distanceTo (fst tr) (lookahead ghost e))
            \<and> (\<forall>e \<in> set post. distanceTo (fst tr) (lookahead ghost d)
                                 \<le> distanceTo (fst tr) (lookahead ghost e))))"
    using fold_considerDrawn_first_min
            [of ghost "snd tr 0" g directionTable "fst tr" "gdirection ghost"]
    unfolding Let_def cs_def candidates_def res_def .
  have "(cs = [] \<longrightarrow> b = gdirection ghost)
    \<and> (cs \<noteq> [] \<longrightarrow>
         (\<exists>pre d post. cs = pre @ d # post \<and> b = snd (snd d)
            \<and> (\<forall>e \<in> set pre. distanceTo (fst tr) (lookahead ghost d)
                                < distanceTo (fst tr) (lookahead ghost e))
            \<and> (\<forall>e \<in> set post. distanceTo (fst tr) (lookahead ghost d)
                                 \<le> distanceTo (fst tr) (lookahead ghost e))))"
  proof (cases "cs = []")
    case True
    with F have "res = (gdirection ghost, None)" by simp
    with True b show ?thesis by simp
  next
    case False
    with F obtain pre d post where
      "cs = pre @ d # post" "res = (snd (snd d), Some (distanceTo (fst tr) (lookahead ghost d)))"
      "\<forall>e \<in> set pre. distanceTo (fst tr) (lookahead ghost d) < distanceTo (fst tr) (lookahead ghost e)"
      "\<forall>e \<in> set post. distanceTo (fst tr) (lookahead ghost d) \<le> distanceTo (fst tr) (lookahead ghost e)"
      by blast
    moreover from this(2) b have "b = snd (snd d)" by simp
    ultimately show ?thesis using False by blast
  qed
  then show ?thesis
    unfolding Let_def tr_def [symmetric] cs_def [symmetric] b_def [symmetric] .
qed

lemma updateModeTimers_keeps [simp]:
  "lastDirectionUpdate (updateModeTimers ghost dt) = lastDirectionUpdate ghost"
  "gdirection (updateModeTimers ghost dt) = gdirection ghost"
  "gx (updateModeTimers ghost dt) = gx ghost" "gy (updateModeTimers ghost dt) = gy ghost"
  by (simp_all add: updateModeTimers_def Let_def)

lemma moveGhost_rejected:
  assumes "ghostTunnelWrap g ghost dt = None"
    and "\<not> isValidPosition g (fst (ghostCandidate ghost dt)) (snd (ghostCandidate ghost dt)) (gsize ghost)"
  shows "moveGhost g ghost dt r = chooseGhostDirection g ghost None r"
  using assms by (auto simp: moveGhost_def split: prod.splits)

text \<open>
  How a direction is re-selected. Re-selection runs when a ghost's step is rejected
  and whenever more than 0.5 seconds have accumulated since it last ran from the AI
  update. It goes through right, down, left, up; the reverse of the current heading is
  left out unless the random draw is at most 0.2, whether or not another direction is
  legal. With the legal directions that are considered listed in enumeration order, the
  new heading is the one whose look-ahead point is nearest to the target, strictly
  nearer than every candidate listed before it and at least as near as every one after
  it; when that list is empty the heading is kept.
\<close>

theorem direction_reselection:
  "(let tr = resolveTarget g ghost targetOpt r;
        cs = candidates g ghost (snd tr 0);
        b = gdirection (fst (chooseGhostDirection g ghost targetOpt r))
    in (cs = [] \<longrightarrow> b = gdirection ghost)
     \<and> (cs \<noteq> [] \<longrightarrow>
          (\<exists>pre d post. cs = pre @ d # post \<and> b = snd (snd d)
             \<and> (\<forall>e \<in> set pre. distanceTo (fst tr) (lookahead ghost d)
                                 < distanceTo (fst tr) (lookahead ghost e))
             \<and> (\<forall>e \<in> set post. distanceTo (fst tr) (lookahead ghost d)
                                  \<le> distanceTo (fst tr) (lookahead ghost e)))))
   \<and> map (\<lambda>d. snd (snd d)) directionTable = [0, 1, 2, 3]
   \<and> (ghostTunnelWrap g ghost deltaTime = None
        \<and> \<not> isValidPosition g (fst (ghostCandidate ghost deltaTime))
               (snd (ghostCandidate ghost deltaTime)) (gsize ghost) \<longrightarrow>
        moveGhost g ghost deltaTime r = chooseGhostDirection g ghost None r)
   \<and> (orDefault (lastDirectionUpdate ghost) 0 + deltaTime > 0.5 \<longrightarrow>
        updateGhostAI g ghost deltaTime r =
          chooseGhostDirection g ((updateModeTimers ghost deltaTime)\<lparr>lastDirectionUpdate := Some 0\<rparr>)
            (Some (fst (getGhostTarget g ghost r))) (snd (getGhostTarget g ghost r)))
   \<and> (\<not> orDefault (lastDirectionUpdate ghost) 0 + deltaTime > 0.5 \<longrightarrow>
        gdirection (fst (updateGhostAI g ghost deltaTime r)) = gdirection ghost
        \<and> lastDirectionUpdate (fst (updateGhostAI g ghost deltaTime r)) =
            Some (orDefault (lastDirectionUpdate ghost) 0 + deltaTime))"
proof -
  have "map (\<lambda>d. snd (snd d)) directionTable = [0, 1, 2, 3]"
    by (simp add: directionTable_def)
  moreover have "orDefault (lastDirectionUpdate ghost) 0 + deltaTime > 0.5 \<longrightarrow>
        updateGhostAI g ghost deltaTime r =
          chooseGhostDirection g ((updateModeTimers ghost deltaTime)\<lparr>lastDirectionUpdate := Some 0\<rparr>)
            (Some (fst (getGhostTarget g ghost r))) (snd (getGhostTarget g ghost r))"
    by (simp add: updateGhostAI_def Let_def split: prod.splits)
  moreover have "\<not> orDefault (lastDirectionUpdate ghost) 0 + deltaTime > 0.5 \<longrightarrow>
        gdirection (fst (updateGhostAI g ghost deltaTime r)) = gdirection ghost
        \<and> lastDirectionUpdate (fst (updateGhostAI g ghost deltaTime r)) =
            Some (orDefault (lastDirectionUpdate ghost) 0 + deltaTime)"
    by (simp add: updateGhostAI_def Let_def split: prod.splits)
  ultimately show ?thesis
    using chooseGhostDirection_first_min [of g ghost targetOpt r]
      moveGhost_rejected [of g ghost deltaTime r]
    by blast
qed

lemma lookahead_ghostStuck:
  "lookahead ghostStuck (1, 0, 0) = (38, 290)" "lookahead ghostStuck (0, 1, 1) = (22, 306)"
  "lookahead ghostStuck (-1, 0, 2) = (6, 290)" "lookahead ghostStuck (0, -1, 3) = (22, 274)"
  by (simp_all add: lookahead_def ghostStuck_def ghost0_def)

lemma valid_game0_cell:
  assumes "8 \<le> x" "x + 8 \<le> 560" "8 \<le> y" "y + 8 \<le> 580"
    "\<lfloor>x / 20\<rfloor> = int cx" "\<lfloor>y / 20\<rfloor> = int cy" "cx < 28" "cy < 29"
  shows "isValidPosition (game0\<lparr>rnd := rr\<rparr>) x y 8 = (ascii ! cy ! cx \<noteq> CHR ''#'')"
  using assms
  by (simp add: isValidPosition_def CANVAS_WIDTH_def CANVAS_HEIGHT_def CLASSIC_COLS_eq
      CLASSIC_ROWS_eq game0_def length_createDefaultMap createDefaultMap_row_length
      createDefaultMap_cell cellOfChar_def)

lemma legal_ghostStuck:
  "legalDirection (game0\<lparr>rnd := rr\<rparr>) ghostStuck (1, 0, 0)"
  "\<not> legalDirection (game0\<lparr>rnd := rr\<rparr>) ghostStuck (0, 1, 1)"
  "\<not> legalDirection (game0\<lparr>rnd := rr\<rparr>) ghostStuck (-1, 0, 2)"
  "\<not> legalDirection (game0\<lparr>rnd := rr\<rparr>) ghostStuck (0, -1, 3)"
proof -
  have sz: "gsize ghostStuck = 8" by (simp add: ghostStuck_def ghost0_def)
  show "legalDirection (game0\<lparr>rnd := rr\<rparr>) ghostStuck (1, 0, 0)"
    unfolding legalDirection_def lookahead_ghostStuck sz fst_conv snd_conv
    by (subst valid_game0_cell [where cx = 1 and cy = 14]) (simp_all add: ascii_def)
  show "\<not> legalDirection (game0\<lparr>rnd := rr\<rparr>) ghostStuck (0, 1, 1)"
    unfolding legalDirection_def lookahead_ghostStuck sz fst_conv snd_conv
    by (subst valid_game0_cell [where cx = 1 and cy = 15]) (simp_all add: ascii_def)
  show "\<not> legalDirection (game0\<lparr>rnd := rr\<rparr>) ghostStuck (-1, 0, 2)"
    unfolding legalDirection_def lookahead_ghostStuck sz fst_conv snd_conv
    by (simp add: isValidPosition_def)
  show "\<not> legalDirection (game0\<lparr>rnd := rr\<rparr>) ghostStuck (0, -1, 3)"
    unfolding legalDirection_def lookahead_ghostStuck sz fst_conv snd_conv
    by (subst valid_game0_cell [where cx = 1 and cy = 13]) (simp_all add: ascii_def)
qed

lemma game0_rnd: "game0\<lparr>rnd := \<lambda>n. 1 / 2\<rparr> = game0"
  by (simp add: game0_def)

lemma resolve_ghostStuck:
  "resolveTarget (game0\<lparr>rnd := rr\<rparr>) ghostStuck None r = ((520, 540), r)"
  by (simp add: resolveTarget_def getGhostTarget_def corners_def ghostStuck_def ghost0_def
      CANVAS_WIDTH_def CANVAS_HEIGHT_def CLASSIC_COLS_eq CLASSIC_ROWS_eq game0_def)

lemma candidates_ghostStuck:
  "candidates (game0\<lparr>rnd := rr\<rparr>) ghostStuck a = (if a \<le> 0.2 then [(1, 0, 0)] else [])"
  using legal_ghostStuck [of rr]
  by (simp add: candidates_def directionTable_def consideredDirection_def ghostStuck_def)

theorem direction_reselection_witness:
  "candidates gameLucky ghostStuck (rnd gameLucky 0) = [(1, 0, 0)]
   \<and> gdirection (fst (chooseGhostDirection gameLucky ghostStuck None (rnd gameLucky))) = 0
   \<and> \<not> orDefault (lastDirectionUpdate ghostStuck) 0 + 1 / 60 > 0.5
   \<and> gdirection (fst (updateGhostAI gameLucky ghostStuck (1 / 60) (rnd gameLucky))) = 2"
proof -
  have rt: "resolveTarget gameLucky ghostStuck None (rnd gameLucky) = ((520, 540), rnd gameLucky)"
    unfolding gameLucky_def by (rule resolve_ghostStuck)
  have r0: "rnd gameLucky 0 = 1 / 10" by (simp add: gameLucky_def)
  have cs: "candidates gameLucky ghostStuck (rnd gameLucky 0) = [(1, 0, 0)]"
    unfolding r0 unfolding gameLucky_def by (simp add: candidates_ghostStuck)
  have el: "\<not> orDefault (lastDirectionUpdate ghostStuck) 0 + 1 / 60 > 0.5"
    by (simp add: orDefault_def ghostStuck_def ghost0_def)
  have hd: "gdirection ghostStuck = 2"
    by (simp add: ghostStuck_def)
  note main = direction_reselection [of gameLucky ghostStuck None "rnd gameLucky" "1 / 60"]
  note first = main [THEN conjunct1, unfolded Let_def rt snd_conv fst_conv cs, THEN conjunct2]
  note last = main [THEN conjunct2, THEN conjunct2, THEN conjunct2, THEN conjunct2]
  from first obtain pre post :: "(real \<times> real \<times> nat) list" and d :: "real \<times> real \<times> nat" where
    dec: "[(1, 0, 0)] = pre @ d # post"
    and b: "gdirection (fst (chooseGhostDirection gameLucky ghostStuck None (rnd gameLucky))) = snd (snd d)"
    by auto
  from dec have "d = (1, 0, 0)" by (cases pre) simp_all
  with b have "gdirection (fst (chooseGhostDirection gameLucky ghostStuck None (rnd gameLucky))) = 0"
    by simp
  moreover from last el hd
  have "gdirection (fst (updateGhostAI gameLucky ghostStuck (1 / 60) (rnd gameLucky))) = 2"
    by simp
  ultimately show ?thesis using cs el by blast
qed

text \<open>
  C5. The reverse of the heading is not admitted when no other legal direction exists,
  although the comment on the skip line says \<^verbatim>\<open>Don't reverse direction unless necessary\<close>.
  For \<open>ghostStuck\<close>, heading left at the dead end of row 14, the reverse (right) is the
  only legal direction of the four; with a random draw of 0.5 the re-selection leaves it
  out all the same, and returns the heading into the wall.
\<close>

theorem only_legal_direction_is_refused:
  "(gdirection ghostStuck + 2) mod 4 = 0
   \<and> legalDirection game0 ghostStuck (1, 0, 0)
   \<and> \<not> legalDirection game0 ghostStuck (0, 1, 1)
   \<and> \<not> legalDirection game0 ghostStuck (-1, 0, 2)
   \<and> \<not> legalDirection game0 ghostStuck (0, -1, 3)
   \<and> rnd game0 0 = 1 / 2
   \<and> gdirection (fst (chooseGhostDirection game0 ghostStuck None (rnd game0))) = 2"
proof -
  have rt: "resolveTarget game0 ghostStuck None (rnd game0) = ((520, 540), rnd game0)"
    using resolve_ghostStuck [of "\<lambda>n. 1 / 2" "rnd game0"] by (simp add: game0_rnd)
  have r0: "rnd game0 0 = 1 / 2" by (simp add: game0_def)
  have cs: "candidates game0 ghostStuck (rnd game0 0) = []"
    using candidates_ghostStuck [of "\<lambda>n. 1 / 2" "1 / 2"] by (simp add: game0_rnd r0)
  from chooseGhostDirection_first_min [of game0 ghostStuck None "rnd game0"]
  have "gdirection (fst (chooseGhostDirection game0 ghostStuck None (rnd game0))) = gdirection ghostStuck"
    unfolding Let_def rt snd_conv cs by simp
  then show ?thesis
    using legal_ghostStuck [of "\<lambda>n. 1 / 2"] r0
    by (simp add: game0_rnd) (simp add: ghostStuck_def)
qed

subsection \<open>Rejected steps\<close>

lemma updateGhostAI_position:
  "gx (fst (updateGhostAI g ghost dt r)) = gx ghost \<and> gy (fst (updateGhostAI g ghost dt r)) = gy ghost"
  by (simp add: updateGhostAI_def Let_def chooseGhostDirection_keeps split: prod.splits)

lemma updatePacman_rejected:
  assumes "pacmanTunnelWrap g = None"
    and "\<not> isValidPosition g (fst (pacmanCandidate dt g)) (snd (pacmanCandidate dt g)) (psize (pacman g))"
  shows "updatePacman dt g = g"
  using assms by (auto simp: updatePacman_def Let_def split: prod.splits)

lemma chooseGhostDirection_legal:
  assumes "candidates g ghost (snd (resolveTarget g ghost targetOpt r) 0) \<noteq> []"
  shows "\<exists>d \<in> set (candidates g ghost (snd (resolveTarget g ghost targetOpt r) 0)).
           gdirection (fst (chooseGhostDirection g ghost targetOpt r)) = snd (snd d)"
proof -
  from chooseGhostDirection_first_min [of g ghost targetOpt r] assms
  obtain pre d post where
    "candidates g ghost (snd (resolveTarget g ghost targetOpt r) 0) = pre @ d # post"
    "gdirection (fst (chooseGhostDirection g ghost targetOpt r)) = snd (snd d)"
    unfolding Let_def by blast
  then show ?thesis by auto
qed

lemma chooseGhostDirection_none_legal:
  assumes "candidates g ghost (snd (resolveTarget g ghost targetOpt r) 0) = []"
  shows "gdirection (fst (chooseGhostDirection g ghost targetOpt r)) = gdirection ghost"
  using chooseGhostDirection_first_min [of g ghost targetOpt r] assms
  unfolding Let_def by blast

text \<open>
  What a rejected step does. When no wrap-around fires and the candidate position is not
  valid, the protagonist's update leaves the whole session as it was, and a ghost's
  movement step is exactly a direction re-selection: the ghost's coordinates are
  unchanged, and its new heading is a legal considered candidate when there is one and
  the old heading otherwise. The same holds for the whole per-ghost callback, measured
  from the ghost as it is after the ghost-house exit and the AI update.
\<close>

theorem rejected_step_keeps_position:
  "(pacmanTunnelWrap g = None
      \<and> \<not> isValidPosition g (fst (pacmanCandidate deltaTime g)) (snd (pacmanCandidate deltaTime g))
             (psize (pacman g)) \<longrightarrow>
      updatePacman deltaTime g = g)
   \<and> (ghostTunnelWrap g ghost deltaTime = None
      \<and> \<not> isValidPosition g (fst (ghostCandidate ghost deltaTime))
             (snd (ghostCandidate ghost deltaTime)) (gsize ghost) \<longrightarrow>
        moveGhost g ghost deltaTime r = chooseGhostDirection g ghost None r
      \<and> gx (fst (moveGhost g ghost deltaTime r)) = gx ghost
      \<and> gy (fst (moveGhost g ghost deltaTime r)) = gy ghost
      \<and> (candidates g ghost (snd (resolveTarget g ghost None r) 0) = [] \<longrightarrow>
            gdirection (fst (moveGhost g ghost deltaTime r)) = gdirection ghost)
      \<and> (candidates g ghost (snd (resolveTarget g ghost None r) 0) \<noteq> [] \<longrightarrow>
            (\<exists>d \<in> set (candidates g ghost (snd (resolveTarget g ghost None r) 0)).
               gdirection (fst (moveGhost g ghost deltaTime r)) = snd (snd d))))
   \<and> (\<not> inGhostHouse (leaveGhostHouse g deltaTime ghost)
      \<and> ghostTunnelWrap g (fst (updateGhostAI g (leaveGhostHouse g deltaTime ghost) deltaTime r))
           deltaTime = None
      \<and> \<not> isValidPosition g
             (fst (ghostCandidate (fst (updateGhostAI g (leaveGhostHouse g deltaTime ghost) deltaTime r)) deltaTime))
             (snd (ghostCandidate (fst (updateGhostAI g (leaveGhostHouse g deltaTime ghost) deltaTime r)) deltaTime))
             (gsize (fst (updateGhostAI g (leaveGhostHouse g deltaTime ghost) deltaTime r))) \<longrightarrow>
        updateGhost g deltaTime ghost r =
          chooseGhostDirection g (fst (updateGhostAI g (leaveGhostHouse g deltaTime ghost) deltaTime r)) None
            (snd (updateGhostAI g (leaveGhostHouse g deltaTime ghost) deltaTime r))
      \<and> gx (fst (updateGhost g deltaTime ghost r)) = gx (leaveGhostHouse g deltaTime ghost)
      \<and> gy (fst (updateGhost g deltaTime ghost r)) = gy (leaveGhostHouse g deltaTime ghost))"
proof (intro conjI impI)
  assume "pacmanTunnelWrap g = None
      \<and> \<not> isValidPosition g (fst (pacmanCandidate deltaTime g)) (snd (pacmanCandidate deltaTime g))
             (psize (pacman g))"
  then show "updatePacman deltaTime g = g" by (simp add: updatePacman_rejected)
next
  assume a: "ghostTunnelWrap g ghost deltaTime = None
      \<and> \<not> isValidPosition g (fst (ghostCandidate ghost deltaTime))
             (snd (ghostCandidate ghost deltaTime)) (gsize ghost)"
  then show m: "moveGhost g ghost deltaTime r = chooseGhostDirection g ghost None r"
    by (simp add: moveGhost_rejected)
  show "gx (fst (moveGhost g ghost deltaTime r)) = gx ghost"
    "gy (fst (moveGhost g ghost deltaTime r)) = gy ghost"
    by (simp_all add: m chooseGhostDirection_keeps)
  {
    assume "candidates g ghost (snd (resolveTarget g ghost None r) 0) = []"
    then show "gdirection (fst (moveGhost g ghost deltaTime r)) = gdirection ghost"
      by (simp add: m chooseGhostDirection_none_legal)
  }
  {
    assume "candidates g ghost (snd (resolveTarget g ghost None r) 0) \<noteq> []"
    then show "\<exists>d \<in> set (candidates g ghost (snd (resolveTarget g ghost None r) 0)).
               gdirection (fst (moveGhost g ghost deltaTime r)) = snd (snd d)"
      unfolding m by (rule chooseGhostDirection_legal)
  }
next
  let ?gh2 = "leaveGhostHouse g deltaTime ghost"
  let ?ai = "updateGhostAI g ?gh2 deltaTime r"
  assume a: "\<not> inGhostHouse ?gh2
      \<and> ghostTunnelWrap g (fst ?ai) deltaTime = None
      \<and> \<not> isValidPosition g (fst (ghostCandidate (fst ?ai) deltaTime))
             (snd (ghostCandidate (fst ?ai) deltaTime)) (gsize (fst ?ai))"
  then have u: "updateGhost g deltaTime ghost r = moveGhost g (fst ?ai) deltaTime (snd ?ai)"
    by (simp add: updateGhost_def Let_def split: prod.splits)
  from a have m: "moveGhost g (fst ?ai) deltaTime (snd ?ai) = chooseGhostDirection g (fst ?ai) None (snd ?ai)"
    by (simp add: moveGhost_rejected)
  show "updateGhost g deltaTime ghost r = chooseGhostDirection g (fst ?ai) None (snd ?ai)"
    by (simp only: u m)
  show "gx (fst (updateGhost g deltaTime ghost r)) = gx ?gh2"
    "gy (fst (updateGhost g deltaTime ghost r)) = gy ?gh2"
    by (simp_all add: u m chooseGhostDirection_keeps updateGhostAI_position)
qed

lemma ghostStuck_candidate: "ghostCandidate ghostStuck (1 / 40) = (18, 290)"
  by (simp add: ghostCandidate_def directions_def ghostStuck_def ghost0_def)

lemma ghostStuck_rejected:
  "ghostTunnelWrap (game0\<lparr>rnd := rr\<rparr>) ghostStuck (1 / 40) = None
   \<and> \<not> isValidPosition (game0\<lparr>rnd := rr\<rparr>) (fst (ghostCandidate ghostStuck (1 / 40)))
          (snd (ghostCandidate ghostStuck (1 / 40))) (gsize ghostStuck)"
proof -
  have "ghostTunnelWrap (game0\<lparr>rnd := rr\<rparr>) ghostStuck (1 / 40) = None"
    by (rule no_tunnel_no_ghost_wrap) (simp add: game0_def tunnelRowsOf_createDefaultMap)
  moreover have sz: "gsize ghostStuck = 8" by (simp add: ghostStuck_def ghost0_def)
  moreover have "\<not> isValidPosition (game0\<lparr>rnd := rr\<rparr>) 18 290 8"
    by (subst valid_game0_cell [where cx = 0 and cy = 14]) (simp_all add: ascii_def)
  ultimately show ?thesis by (simp add: ghostStuck_candidate)
qed

theorem rejected_step_keeps_position_witness:
  "pacmanTunnelWrap gameWall = None
   \<and> \<not> isValidPosition gameWall (fst (pacmanCandidate (1 / 50) gameWall))
          (snd (pacmanCandidate (1 / 50) gameWall)) (psize (pacman gameWall))
   \<and> updatePacman (1 / 50) gameWall = gameWall
   \<and> ghostTunnelWrap gameLucky ghostStuck (1 / 40) = None
   \<and> \<not> isValidPosition gameLucky (fst (ghostCandidate ghostStuck (1 / 40)))
          (snd (ghostCandidate ghostStuck (1 / 40))) (gsize ghostStuck)
   \<and> gx (fst (moveGhost gameLucky ghostStuck (1 / 40) (rnd gameLucky))) = 22
   \<and> gy (fst (moveGhost gameLucky ghostStuck (1 / 40) (rnd gameLucky))) = 290
   \<and> gdirection (fst (moveGhost gameLucky ghostStuck (1 / 40) (rnd gameLucky))) = 0"
proof -
  have pw: "pacmanTunnelWrap gameWall = None"
    by (rule no_tunnel_no_pacman_wrap) (simp add: gameWall_def game0_def tunnelRowsOf_createDefaultMap)
  have pc: "pacmanCandidate (1 / 50) gameWall = (30, 18)"
    by (simp add: pacmanCandidate_def inputDirection_def directions_def gameWall_def game0_def
        pacman0_def noKeys_def Let_def)
  have gw: "gameWall = game0\<lparr>rnd := \<lambda>n. 1 / 2\<rparr>\<lparr>pacman := pacman0\<lparr>py := 22, pdirection := 3\<rparr>\<rparr>"
    by (simp add: gameWall_def game0_def)
  have pv: "\<not> isValidPosition gameWall 30 18 (psize (pacman gameWall))"
    by (simp add: isValidPosition_def gameWall_def game0_def pacman0_def CANVAS_WIDTH_def
        CANVAS_HEIGHT_def CLASSIC_COLS_eq CLASSIC_ROWS_eq length_createDefaultMap
        createDefaultMap_row_length createDefaultMap_cell cellOfChar_def ascii_def)
  have ph: "pacmanTunnelWrap gameWall = None
     \<and> \<not> isValidPosition gameWall (fst (pacmanCandidate (1 / 50) gameWall))
          (snd (pacmanCandidate (1 / 50) gameWall)) (psize (pacman gameWall))"
    using pw pv by (simp add: pc)
  have gh: "ghostTunnelWrap gameLucky ghostStuck (1 / 40) = None
     \<and> \<not> isValidPosition gameLucky (fst (ghostCandidate ghostStuck (1 / 40)))
          (snd (ghostCandidate ghostStuck (1 / 40))) (gsize ghostStuck)"
    unfolding gameLucky_def by (rule ghostStuck_rejected)
  have rt: "resolveTarget gameLucky ghostStuck None (rnd gameLucky) = ((520, 540), rnd gameLucky)"
    unfolding gameLucky_def by (rule resolve_ghostStuck)
  have r0: "rnd gameLucky 0 = 1 / 10" by (simp add: gameLucky_def)
  have cs: "candidates gameLucky ghostStuck (snd (resolveTarget gameLucky ghostStuck None (rnd gameLucky)) 0)
      = [(1, 0, 0)]"
    unfolding rt snd_conv r0 unfolding gameLucky_def by (simp add: candidates_ghostStuck)
  note main1 = rejected_step_keeps_position [of gameWall "1 / 50"]
  note main2 = rejected_step_keeps_position [of gameLucky "1 / 40" ghostStuck "rnd gameLucky"]
  from main1 ph have 1: "updatePacman (1 / 50) gameWall = gameWall" by blast
  from main2 gh
  have 2: "gx (fst (moveGhost gameLucky ghostStuck (1 / 40) (rnd gameLucky))) = gx ghostStuck
     \<and> gy (fst (moveGhost gameLucky ghostStuck (1 / 40) (rnd gameLucky))) = gy ghostStuck
     \<and> (candidates gameLucky ghostStuck (snd (resolveTarget gameLucky ghostStuck None (rnd gameLucky)) 0) \<noteq> [] \<longrightarrow>
            (\<exists>d \<in> set (candidates gameLucky ghostStuck (snd (resolveTarget gameLucky ghostStuck None (rnd gameLucky)) 0)).
               gdirection (fst (moveGhost gameLucky ghostStuck (1 / 40) (rnd gameLucky))) = snd (snd d)))"
    by blast
  then have 3: "gdirection (fst (moveGhost gameLucky ghostStuck (1 / 40) (rnd gameLucky))) = 0"
    unfolding cs by simp
  from 2 have 4: "gx (fst (moveGhost gameLucky ghostStuck (1 / 40) (rnd gameLucky))) = 22
     \<and> gy (fst (moveGhost gameLucky ghostStuck (1 / 40) (rnd gameLucky))) = 290"
    by (simp add: ghostStuck_def)
  from ph gh 1 3 4 show ?thesis by blast
qed

subsection \<open>Tunnel wrap-around\<close>

text \<open>
  What the two wrap-around blocks do when their tests are met. In a tunnel row the
  protagonist is wrapped when it heads left with its left rim at or past the left edge
  (\<open>x - size \<le> 0\<close>), or right with its right rim at or past the right edge: it is put at
  the centre of the last (first) column, at the centre height of its row, with the
  requested heading. A ghost is wrapped when it heads left and its candidate x is more
  than a cell beyond the left edge (\<open>newX < - GRID_SIZE\<close>), or heads right with its
  candidate more than a cell beyond the right edge: only its x changes, to one cell
  beyond the opposite edge. In all four cases the validity check is not consulted.
\<close>

lemma tunnel_wrap_block:
  "(\<lfloor>py (pacman g) / GRID_SIZE g\<rfloor> \<in> tunnelRows g
      \<and> fst (directions ! inputDirection g) < 0
      \<and> px (pacman g) - psize (pacman g) \<le> 0 \<longrightarrow>
        updatePacman deltaTime g =
          g\<lparr>pacman := (pacman g)\<lparr>pdirection := inputDirection g,
                px := (real (length (gameMap g ! 0)) - 1 + 0.5) * GRID_SIZE g,
                py := (real_of_int \<lfloor>py (pacman g) / GRID_SIZE g\<rfloor> + 0.5) * GRID_SIZE g,
                pgridX := \<lfloor>(real (length (gameMap g ! 0)) - 1 + 0.5) * GRID_SIZE g / GRID_SIZE g\<rfloor>,
                pgridY := \<lfloor>py (pacman g) / GRID_SIZE g\<rfloor>\<rparr>\<rparr>)
   \<and> (\<lfloor>py (pacman g) / GRID_SIZE g\<rfloor> \<in> tunnelRows g
      \<and> fst (directions ! inputDirection g) > 0
      \<and> px (pacman g) + psize (pacman g) \<ge> real (length (gameMap g ! 0)) * GRID_SIZE g \<longrightarrow>
        updatePacman deltaTime g =
          g\<lparr>pacman := (pacman g)\<lparr>pdirection := inputDirection g,
                px := 0.5 * GRID_SIZE g,
                py := (real_of_int \<lfloor>py (pacman g) / GRID_SIZE g\<rfloor> + 0.5) * GRID_SIZE g,
                pgridX := \<lfloor>0.5 * GRID_SIZE g / GRID_SIZE g\<rfloor>,
                pgridY := \<lfloor>py (pacman g) / GRID_SIZE g\<rfloor>\<rparr>\<rparr>)
   \<and> (\<lfloor>gy ghost / GRID_SIZE g\<rfloor> \<in> tunnelRows g
      \<and> fst (ghostCandidate ghost deltaTime) < - GRID_SIZE g \<and> gdirection ghost = 2 \<longrightarrow>
        moveGhost g ghost deltaTime r =
          (ghost\<lparr>gx := real (length (gameMap g ! 0)) * GRID_SIZE g + GRID_SIZE g\<rparr>, r))
   \<and> (\<lfloor>gy ghost / GRID_SIZE g\<rfloor> \<in> tunnelRows g
      \<and> fst (ghostCandidate ghost deltaTime) > real (length (gameMap g ! 0)) * GRID_SIZE g + GRID_SIZE g
      \<and> gdirection ghost = 0 \<longrightarrow>
        moveGhost g ghost deltaTime r = (ghost\<lparr>gx := - GRID_SIZE g\<rparr>, r))"
  by (auto simp: updatePacman_def pacmanTunnelWrap_def moveGhost_def ghostTunnelWrap_def Let_def
      split: prod.splits)



text \<open>
  From a position that \<^verbatim>\<open>isValidPosition\<close> accepts, a ghost whose step is no longer than
  a cell never meets either test of its wrap-around block; and the protagonist meets
  its own only when its rim is exactly on the edge.
\<close>

lemma ghostTunnelWrap_from_valid:
  assumes v: "isValidPosition g (gx ghost) (gy ghost) (gsize ghost)"
    and sz: "0 \<le> gsize ghost"
    and step: "0 \<le> gspeed ghost * deltaTime" "gspeed ghost * deltaTime \<le> GRID_SIZE g"
    and cols: "length (gameMap g ! 0) = CLASSIC_COLS"
  shows "ghostTunnelWrap g ghost deltaTime = None"
proof -
  from v have b: "0 \<le> gx ghost - gsize ghost" "gx ghost + gsize ghost \<le> CANVAS_WIDTH g"
    by (auto simp: isValidPosition_def split: if_splits)
  have l: "\<not> (gx ghost + fst (directions ! 2) * gspeed ghost * deltaTime < - GRID_SIZE g)"
    using b sz step by (simp add: directions_def)
  have r: "\<not> (gx ghost + fst (directions ! 0) * gspeed ghost * deltaTime
              > real (length (gameMap g ! 0)) * GRID_SIZE g + GRID_SIZE g)"
    using b sz step by (simp add: directions_def cols CANVAS_WIDTH_def)
  show ?thesis
    using l r by (auto simp: ghostTunnelWrap_def ghostCandidate_def Let_def)
qed






lemma updateGhosts_single:
  assumes "ghosts g = [gh]"
  shows "ghosts (updateGhosts dt g) = [fst (updateGhost g dt gh (rnd g))]"
    "rnd (updateGhosts dt g) = snd (updateGhost g dt gh (rnd g))"
  using assms by (simp_all add: updateGhosts_def Let_def split: prod.splits)



subsection \<open>Pellets and level advance\<close>

lemma filter_update_drop:
  assumes "i < length xs" "P (xs ! i)" "\<not> P v"
  shows "length (filter P (xs[i := v])) + 1 = length (filter P xs)"
  using assms
proof (induction xs arbitrary: i)
  case Nil
  then show ?case by simp
next
  case (Cons a xs)
  show ?case
  proof (cases i)
    case 0
    with Cons.prems show ?thesis by simp
  next
    case (Suc j)
    with Cons.prems have "j < length xs" "P (xs ! j)" by simp_all
    from Cons.IH [OF this Cons.prems(3)] Suc show ?thesis by simp
  qed
qed

lemma pelletCount_setCell:
  assumes y: "y < length m" and x: "x < length (m ! y)"
    and c: "m ! y ! x = 2 \<or> m ! y ! x = 3"
  shows "pelletCountOf (setCell m y x 0) + 1 = pelletCountOf m"
proof -
  let ?P = "\<lambda>c::nat. c = 2 \<or> c = 3"
  let ?f = "\<lambda>row. length (filter ?P row)"
  have row: "?f ((m ! y)[x := 0]) + 1 = ?f (m ! y)"
    using x c by (intro filter_update_drop) simp_all
  have "map ?f (m[y := (m ! y)[x := 0]]) = (map ?f m)[y := ?f ((m ! y)[x := 0])]"
    by (simp add: map_update)
  then have "pelletCountOf (setCell m y x 0) = sum_list ((map ?f m)[y := ?f ((m ! y)[x := 0])])"
    by (simp add: pelletCountOf_def setCell_def)
  also have "\<dots> = sum_list (map ?f m) + ?f ((m ! y)[x := 0]) - (map ?f m) ! y"
    using y by (simp add: sum_list_update)
  finally have eq: "pelletCountOf (setCell m y x 0) =
      pelletCountOf m + ?f ((m ! y)[x := 0]) - ?f (m ! y)"
    using y by (simp add: pelletCountOf_def)
  have "?f (m ! y) \<in> set (map ?f m)"
    using y by (auto intro!: imageI)
  then have "?f (m ! y) \<le> pelletCountOf m"
    unfolding pelletCountOf_def using member_le_sum_list [of "?f (m ! y)" "map ?f m"] by simp
  with eq row show ?thesis by linarith
qed

lemma cellUnderPacman_bounds:
  assumes "cellUnderPacman g = Some c"
  shows "nat \<lfloor>py (pacman g) / GRID_SIZE g\<rfloor> < length (gameMap g)
       \<and> nat \<lfloor>px (pacman g) / GRID_SIZE g\<rfloor> < length (gameMap g ! nat \<lfloor>py (pacman g) / GRID_SIZE g\<rfloor>)
       \<and> gameMap g ! nat \<lfloor>py (pacman g) / GRID_SIZE g\<rfloor> ! nat \<lfloor>px (pacman g) / GRID_SIZE g\<rfloor> = c"
proof -
  define X where "X = \<lfloor>px (pacman g) / GRID_SIZE g\<rfloor>"
  define Y where "Y = \<lfloor>py (pacman g) / GRID_SIZE g\<rfloor>"
  from assms have "0 \<le> Y \<and> Y < int (length (gameMap g)) \<and> 0 \<le> X
      \<and> X < int (length (gameMap g ! nat Y)) \<and> gameMap g ! nat Y ! nat X = c"
    unfolding cellUnderPacman_def Let_def X_def [symmetric] Y_def [symmetric]
    by (simp split: if_splits)
  then have "nat Y < length (gameMap g) \<and> nat X < length (gameMap g ! nat Y)
      \<and> gameMap g ! nat Y ! nat X = c"
    by linarith
  then show ?thesis unfolding X_def Y_def .
qed

lemma collectPellet_pellet:
  assumes "cellUnderPacman g = Some 2"
  shows "collectPellet g =
     g\<lparr>gameMap := setCell (gameMap g) (nat \<lfloor>py (pacman g) / GRID_SIZE g\<rfloor>)
                      (nat \<lfloor>px (pacman g) / GRID_SIZE g\<rfloor>) 0,
       state := (addScore 10 (state g))\<lparr>pelletsRemaining := pelletsRemaining (state g) - 1\<rparr>\<rparr>"
  using assms by (auto simp: cellUnderPacman_def collectPellet_def Let_def split: if_splits)

lemma cell_after_setCell:
  assumes "cellUnderPacman g = Some c"
  shows "cellUnderPacman (g\<lparr>gameMap := setCell (gameMap g) (nat \<lfloor>py (pacman g) / GRID_SIZE g\<rfloor>)
                      (nat \<lfloor>px (pacman g) / GRID_SIZE g\<rfloor>) 0, state := s, ghosts := gs\<rparr>) = Some 0"
proof -
  define X where "X = \<lfloor>px (pacman g) / GRID_SIZE g\<rfloor>"
  define Y where "Y = \<lfloor>py (pacman g) / GRID_SIZE g\<rfloor>"
  from assms have b: "0 \<le> Y" "Y < int (length (gameMap g))" "0 \<le> X"
      "X < int (length (gameMap g ! nat Y))"
    unfolding cellUnderPacman_def Let_def X_def [symmetric] Y_def [symmetric]
    by (simp_all split: if_splits)
  then have n: "nat Y < length (gameMap g)" "nat X < length (gameMap g ! nat Y)"
    by linarith+
  have len: "length (setCell (gameMap g) (nat Y) (nat X) 0) = length (gameMap g)"
    "length (setCell (gameMap g) (nat Y) (nat X) 0 ! nat Y) = length (gameMap g ! nat Y)"
    "setCell (gameMap g) (nat Y) (nat X) 0 ! nat Y ! nat X = 0"
    using n by (simp_all add: setCell_def)
  define g' where "g' = g\<lparr>gameMap := setCell (gameMap g) (nat Y) (nat X) 0, state := s, ghosts := gs\<rparr>"
  have g': "pacman g' = pacman g" "GRID_SIZE g' = GRID_SIZE g"
    "gameMap g' = setCell (gameMap g) (nat Y) (nat X) 0"
    by (simp_all add: g'_def)
  have "cellUnderPacman g' = Some 0"
    unfolding cellUnderPacman_def Let_def g' X_def [symmetric] Y_def [symmetric]
    using b len by (simp only: if_True simp_thms)
  then show ?thesis unfolding g'_def X_def Y_def .
qed

lemma collectPellet_effect:
  assumes inv: "pelletInvariant g"
  shows "pelletInvariant (collectPellet g)
       \<and> pelletsRemaining (state (collectPellet g)) =
           pelletsRemaining (state g)
             - (if cellUnderPacman g = Some 2 \<or> cellUnderPacman g = Some 3 then 1 else 0)"
proof (cases "cellUnderPacman g = Some 2 \<or> cellUnderPacman g = Some 3")
  case False
  then have "collectPellet g = g" by (simp add: collectPellet_other)
  with inv False show ?thesis by simp
next
  case True
  then obtain c where c: "cellUnderPacman g = Some c" "c = 2 \<or> c = 3" by blast
  let ?y = "nat \<lfloor>py (pacman g) / GRID_SIZE g\<rfloor>"
  let ?x = "nat \<lfloor>px (pacman g) / GRID_SIZE g\<rfloor>"
  from cellUnderPacman_bounds [OF c(1)] c(2)
  have "pelletCountOf (setCell (gameMap g) ?y ?x 0) + 1 = pelletCountOf (gameMap g)"
    by (intro pelletCount_setCell) auto
  then have cnt: "int (pelletCountOf (setCell (gameMap g) ?y ?x 0)) = int (pelletCountOf (gameMap g)) - 1"
    by linarith
  from c have "gameMap (collectPellet g) = setCell (gameMap g) ?y ?x 0
      \<and> pelletsRemaining (state (collectPellet g)) = pelletsRemaining (state g) - 1"
    by (auto simp: collectPellet_pellet collectPellet_power)
  with cnt inv True show ?thesis by (simp add: pelletInvariant_def)
qed

lemma updatePacman_frame:
  "state (updatePacman dt g) = state g" "gameMap (updatePacman dt g) = gameMap g"
  "GRID_SIZE (updatePacman dt g) = GRID_SIZE g" "ghosts (updatePacman dt g) = ghosts g"
  by (simp_all add: updatePacman_def Let_def split: prod.splits option.splits)

lemma updateGhosts_frame:
  "state (updateGhosts dt g) = state g" "gameMap (updateGhosts dt g) = gameMap g"
  "GRID_SIZE (updateGhosts dt g) = GRID_SIZE g" "pacman (updateGhosts dt g) = pacman g"
  by (simp_all add: updateGhosts_def Let_def split: prod.splits)

lemma updatePowerPelletTimer_frame:
  "gameMap (updatePowerPelletTimer dt g) = gameMap g"
  "GRID_SIZE (updatePowerPelletTimer dt g) = GRID_SIZE g"
  "pacman (updatePowerPelletTimer dt g) = pacman g"
  "pelletsRemaining (state (updatePowerPelletTimer dt g)) = pelletsRemaining (state g)"
  "level (state (updatePowerPelletTimer dt g)) = level (state g)"
  by (simp_all add: updatePowerPelletTimer_def Let_def)

lemma collectPellet_frame:
  "level (state (collectPellet g)) = level (state g)"
  "GRID_SIZE (collectPellet g) = GRID_SIZE g"
  by (simp_all add: collectPellet_def Let_def addScore_def)

lemma collideGhost_GRID_SIZE [simp]: "GRID_SIZE (collideGhost i g) = GRID_SIZE g"
  by (simp add: collideGhost_def Let_def resetPositions_def)

lemma checkCollisions_frame:
  "gameMap (checkCollisions g) = gameMap (collectPellet g)"
  "pelletsRemaining (state (checkCollisions g)) = pelletsRemaining (state (collectPellet g))"
  "level (state (checkCollisions g)) = level (state g)"
  "GRID_SIZE (checkCollisions g) = GRID_SIZE g"
proof -
  show "gameMap (checkCollisions g) = gameMap (collectPellet g)"
    unfolding checkCollisions_def Let_def
    by (rule fold_collideGhost_keeps [where f = gameMap]) simp
  show "pelletsRemaining (state (checkCollisions g)) = pelletsRemaining (state (collectPellet g))"
    unfolding checkCollisions_def Let_def
    by (rule fold_collideGhost_keeps [where f = "\<lambda>g. pelletsRemaining (state g)"]) simp
  have "level (state (checkCollisions g)) = level (state (collectPellet g))"
    unfolding checkCollisions_def Let_def
    by (rule fold_collideGhost_keeps [where f = "\<lambda>g. level (state g)"]) simp
  then show "level (state (checkCollisions g)) = level (state g)"
    by (simp add: collectPellet_frame)
  have "GRID_SIZE (checkCollisions g) = GRID_SIZE (collectPellet g)"
    unfolding checkCollisions_def Let_def
    by (rule fold_collideGhost_keeps [where f = GRID_SIZE]) simp
  then show "GRID_SIZE (checkCollisions g) = GRID_SIZE g"
    by (simp add: collectPellet_frame)
qed

lemma checkCollisions_invariant:
  assumes "pelletInvariant g"
  shows "pelletInvariant (checkCollisions g)"
  using collectPellet_effect [OF assms]
  by (simp add: pelletInvariant_def checkCollisions_frame)

lemma beforeCollisions_invariant:
  assumes "pelletInvariant g"
  shows "pelletInvariant (updatePowerPelletTimer dt (updateGhosts dt (updatePacman dt g)))"
  using assms
  by (simp add: pelletInvariant_def updatePowerPelletTimer_frame updateGhosts_frame updatePacman_frame)

lemma cellUnderPacman_beforeCollisions:
  "cellUnderPacman (updatePowerPelletTimer dt (updateGhosts dt (updatePacman dt g)))
   = cellUnderPacman (updatePacman dt g)"
  by (simp add: cellUnderPacman_def Let_def updatePowerPelletTimer_frame updateGhosts_frame)

lemma nextLevel_effect:
  "level (state (nextLevel g)) = level (state g) + 1"
  "gameMap (nextLevel g) = createDefaultMap"
  "pelletsRemaining (state (nextLevel g)) = int (pelletCountOf createDefaultMap)"
  "score (state (nextLevel g)) = score (state g)"
  "lives (state (nextLevel g)) = lives (state g)"
  "px (pacman (nextLevel g)) = GRID_SIZE g * 1.5"
  "py (pacman (nextLevel g)) = GRID_SIZE g * 1.5"
  "ghosts (nextLevel g) = resetGhostPositions (GRID_SIZE g) 0 (ghosts g)"
  by (simp_all add: nextLevel_def resetPositions_def updateTunnelRows_def countPellets_def
      stateNextLevel_def)

lemma updateToCollisions_effect:
  assumes inv: "pelletInvariant g"
  shows "pelletInvariant (updateToCollisions dt g)
       \<and> pelletsRemaining (state (updateToCollisions dt g)) =
           pelletsRemaining (state g)
             - (if cellUnderPacman (updatePacman dt g) = Some 2
                   \<or> cellUnderPacman (updatePacman dt g) = Some 3 then 1 else 0)
       \<and> level (state (updateToCollisions dt g)) = level (state g)
       \<and> GRID_SIZE (updateToCollisions dt g) = GRID_SIZE g"
proof -
  let ?g3 = "updatePowerPelletTimer dt (updateGhosts dt (updatePacman dt g))"
  have inv3: "pelletInvariant ?g3" using inv by (rule beforeCollisions_invariant)
  have u: "updateToCollisions dt g = checkCollisions ?g3"
    by (simp add: updateToCollisions_def)
  have p3: "pelletsRemaining (state ?g3) = pelletsRemaining (state g)"
    "level (state ?g3) = level (state g)" "GRID_SIZE ?g3 = GRID_SIZE g"
    by (simp_all add: updatePowerPelletTimer_frame updateGhosts_frame updatePacman_frame)
  from collectPellet_effect [OF inv3]
  have "pelletsRemaining (state (checkCollisions ?g3)) =
           pelletsRemaining (state g)
             - (if cellUnderPacman (updatePacman dt g) = Some 2
                   \<or> cellUnderPacman (updatePacman dt g) = Some 3 then 1 else 0)"
    by (simp only: checkCollisions_frame cellUnderPacman_beforeCollisions p3)
  moreover have "pelletInvariant (checkCollisions ?g3)"
    using inv3 by (rule checkCollisions_invariant)
  ultimately show ?thesis
    unfolding u by (simp add: checkCollisions_frame p3)
qed

text \<open>
  C3. Provided the counter agrees with the map (as it does from loading on), one call of
  \<^verbatim>\<open>checkCollisions\<close> lowers the remaining-pellet count by exactly 1 when the
  protagonist's cell holds a pellet or a power pellet and leaves it alone otherwise; the
  pellet part turns that cell into an empty one and adds 10, respectively 50, to the
  score, and does nothing on any other cell; the count stays in agreement with the map,
  hence is never negative. The same holds for the tick up to the collision check, for the
  cell the protagonist has moved to. \<^verbatim>\<open>update\<close> advances the level exactly when the
  count is then 0: the level goes up by one, the built-in maze is reloaded and recounted,
  positions are reset, score and lives are as the collision check left them; when the
  count is not 0 the tick ends with the level unchanged.
\<close>

theorem pellet_consumption_and_level_advance:
  assumes inv: "pelletInvariant g"
  shows "pelletsRemaining (state (checkCollisions g)) =
           pelletsRemaining (state g)
             - (if cellUnderPacman g = Some 2 \<or> cellUnderPacman g = Some 3 then 1 else 0)
    \<and> (cellUnderPacman g = Some 2 \<longrightarrow>
          score (state (collectPellet g)) = score (state g) + 10
          \<and> cellUnderPacman (collectPellet g) = Some 0)
    \<and> (cellUnderPacman g = Some 3 \<longrightarrow>
          score (state (collectPellet g)) = score (state g) + 50
          \<and> cellUnderPacman (collectPellet g) = Some 0)
    \<and> (cellUnderPacman g \<noteq> Some 2 \<and> cellUnderPacman g \<noteq> Some 3 \<longrightarrow> collectPellet g = g)
    \<and> pelletInvariant (checkCollisions g)
    \<and> 0 \<le> pelletsRemaining (state (checkCollisions g))
    \<and> pelletsRemaining (state (updateToCollisions deltaTime g)) =
           pelletsRemaining (state g)
             - (if cellUnderPacman (updatePacman deltaTime g) = Some 2
                   \<or> cellUnderPacman (updatePacman deltaTime g) = Some 3 then 1 else 0)
    \<and> 0 \<le> pelletsRemaining (state (updateToCollisions deltaTime g))
    \<and> (pelletsRemaining (state (updateToCollisions deltaTime g)) = 0 \<longrightarrow>
          update deltaTime g = nextLevel (updateToCollisions deltaTime g)
          \<and> level (state (update deltaTime g)) = level (state g) + 1
          \<and> gameMap (update deltaTime g) = createDefaultMap
          \<and> pelletsRemaining (state (update deltaTime g)) = int (pelletCountOf createDefaultMap)
          \<and> score (state (update deltaTime g)) = score (state (updateToCollisions deltaTime g))
          \<and> lives (state (update deltaTime g)) = lives (state (updateToCollisions deltaTime g))
          \<and> px (pacman (update deltaTime g)) = GRID_SIZE g * 1.5
          \<and> py (pacman (update deltaTime g)) = GRID_SIZE g * 1.5
          \<and> (\<forall>j < length (ghosts (updateToCollisions deltaTime g)).
                gx (ghosts (update deltaTime g) ! j) = GRID_SIZE g * (5 + real j)
                \<and> gy (ghosts (update deltaTime g) ! j) = GRID_SIZE g * 5))
    \<and> (pelletsRemaining (state (updateToCollisions deltaTime g)) \<noteq> 0 \<longrightarrow>
          update deltaTime g = updateToCollisions deltaTime g
          \<and> level (state (update deltaTime g)) = level (state g))
    \<and> pelletInvariant (update deltaTime g)"
proof -
  let ?g1 = "updateToCollisions deltaTime g"
  note ce = collectPellet_effect [OF inv]
  have a1: "pelletsRemaining (state (checkCollisions g)) =
           pelletsRemaining (state g)
             - (if cellUnderPacman g = Some 2 \<or> cellUnderPacman g = Some 3 then 1 else 0)"
    using ce by (simp only: checkCollisions_frame)
  have a2: "cellUnderPacman g = Some 2 \<longrightarrow>
          score (state (collectPellet g)) = score (state g) + 10
          \<and> cellUnderPacman (collectPellet g) = Some 0"
  proof
    assume c: "cellUnderPacman g = Some 2"
    have "cellUnderPacman (collectPellet g) = Some 0"
      unfolding collectPellet_pellet [OF c]
      using cell_after_setCell [OF c, where gs = "ghosts g"
          and s = "(addScore 10 (state g))\<lparr>pelletsRemaining := pelletsRemaining (state g) - 1\<rparr>"]
      by simp
    moreover have "score (state (collectPellet g)) = score (state g) + 10"
      unfolding collectPellet_pellet [OF c] by (simp add: addScore_def)
    ultimately show "score (state (collectPellet g)) = score (state g) + 10
          \<and> cellUnderPacman (collectPellet g) = Some 0" by simp
  qed
  have a3: "cellUnderPacman g = Some 3 \<longrightarrow>
          score (state (collectPellet g)) = score (state g) + 50
          \<and> cellUnderPacman (collectPellet g) = Some 0"
  proof
    assume c: "cellUnderPacman g = Some 3"
    have "cellUnderPacman (collectPellet g) = Some 0"
      unfolding collectPellet_power [OF c]
      by (rule cell_after_setCell [OF c])
    moreover have "score (state (collectPellet g)) = score (state g) + 50"
      unfolding collectPellet_power [OF c] by (simp add: addScore_def)
    ultimately show "score (state (collectPellet g)) = score (state g) + 50
          \<and> cellUnderPacman (collectPellet g) = Some 0" by simp
  qed
  have a4: "cellUnderPacman g \<noteq> Some 2 \<and> cellUnderPacman g \<noteq> Some 3 \<longrightarrow> collectPellet g = g"
    by (simp add: collectPellet_other)
  have a5: "pelletInvariant (checkCollisions g)"
    using inv by (rule checkCollisions_invariant)
  then have a6: "0 \<le> pelletsRemaining (state (checkCollisions g))"
    by (simp add: pelletInvariant_def)
  note ue = updateToCollisions_effect [OF inv, of deltaTime]
  from ue have inv1: "pelletInvariant ?g1" by blast
  then have nn: "0 \<le> pelletsRemaining (state ?g1)" by (simp add: pelletInvariant_def)
  from ue have cnt: "pelletsRemaining (state ?g1) =
           pelletsRemaining (state g)
             - (if cellUnderPacman (updatePacman deltaTime g) = Some 2
                   \<or> cellUnderPacman (updatePacman deltaTime g) = Some 3 then 1 else 0)"
    by blast
  from ue have lv: "level (state ?g1) = level (state g)" and gs: "GRID_SIZE ?g1 = GRID_SIZE g"
    by blast+
  have adv: "pelletsRemaining (state ?g1) = 0 \<longrightarrow>
          update deltaTime g = nextLevel ?g1
          \<and> level (state (update deltaTime g)) = level (state g) + 1
          \<and> gameMap (update deltaTime g) = createDefaultMap
          \<and> pelletsRemaining (state (update deltaTime g)) = int (pelletCountOf createDefaultMap)
          \<and> score (state (update deltaTime g)) = score (state ?g1)
          \<and> lives (state (update deltaTime g)) = lives (state ?g1)
          \<and> px (pacman (update deltaTime g)) = GRID_SIZE g * 1.5
          \<and> py (pacman (update deltaTime g)) = GRID_SIZE g * 1.5
          \<and> (\<forall>j < length (ghosts ?g1).
                gx (ghosts (update deltaTime g) ! j) = GRID_SIZE g * (5 + real j)
                \<and> gy (ghosts (update deltaTime g) ! j) = GRID_SIZE g * 5)"
  proof
    assume z: "pelletsRemaining (state ?g1) = 0"
    then have u: "update deltaTime g = nextLevel ?g1"
      by (simp add: update_def Let_def)
    show "update deltaTime g = nextLevel ?g1
          \<and> level (state (update deltaTime g)) = level (state g) + 1
          \<and> gameMap (update deltaTime g) = createDefaultMap
          \<and> pelletsRemaining (state (update deltaTime g)) = int (pelletCountOf createDefaultMap)
          \<and> score (state (update deltaTime g)) = score (state ?g1)
          \<and> lives (state (update deltaTime g)) = lives (state ?g1)
          \<and> px (pacman (update deltaTime g)) = GRID_SIZE g * 1.5
          \<and> py (pacman (update deltaTime g)) = GRID_SIZE g * 1.5
          \<and> (\<forall>j < length (ghosts ?g1).
                gx (ghosts (update deltaTime g) ! j) = GRID_SIZE g * (5 + real j)
                \<and> gy (ghosts (update deltaTime g) ! j) = GRID_SIZE g * 5)"
      unfolding u by (simp add: nextLevel_effect lv gs nth_resetGhostPositions)
  qed
  have stay: "pelletsRemaining (state ?g1) \<noteq> 0 \<longrightarrow>
          update deltaTime g = ?g1 \<and> level (state (update deltaTime g)) = level (state g)"
    using nn by (simp add: update_def Let_def lv)
  have inv2: "pelletInvariant (update deltaTime g)"
  proof (cases "pelletsRemaining (state ?g1) = 0")
    case True
    with adv have "gameMap (update deltaTime g) = createDefaultMap"
      "pelletsRemaining (state (update deltaTime g)) = int (pelletCountOf createDefaultMap)"
      by blast+
    then show ?thesis by (simp add: pelletInvariant_def)
  next
    case False
    with stay inv1 show ?thesis by simp
  qed
  from a1 a2 a3 a4 a5 a6 cnt nn adv stay inv2 show ?thesis by blast
qed

lemma pelletInvariant_established:
  "pelletInvariant (countPellets g)" "pelletInvariant (restart g)" "pelletInvariant (nextLevel g)"
  by (simp_all add: pelletInvariant_def countPellets_def restart_def nextLevel_def
      updateTunnelRows_def resetPositions_def initializeGameObjects_def Let_def)

theorem pellet_consumption_and_level_advance_witness:
  "pelletInvariant gameLastPellet
   \<and> cellUnderPacman gameLastPellet = Some 2
   \<and> pelletsRemaining (state (checkCollisions gameLastPellet)) = 0
   \<and> score (state (collectPellet gameLastPellet)) = 10
   \<and> cellUnderPacman (collectPellet gameLastPellet) = Some 0
   \<and> cellUnderPacman (updatePacman (1 / 50) gameLastPellet) = Some 2
   \<and> pelletsRemaining (state (updateToCollisions (1 / 50) gameLastPellet)) = 0
   \<and> level (state (update (1 / 50) gameLastPellet)) = 2
   \<and> gameMap (update (1 / 50) gameLastPellet) = createDefaultMap
   \<and> px (pacman (update (1 / 50) gameLastPellet)) = 30"
proof -
  have inv: "pelletInvariant gameLastPellet"
    by (simp add: pelletInvariant_def pelletCountOf_def gameLastPellet_def state0_def)
  have f: "pelletsRemaining (state gameLastPellet) = 1" "score (state gameLastPellet) = 0"
    "level (state gameLastPellet) = 1" "GRID_SIZE gameLastPellet = 20"
    by (simp_all add: gameLastPellet_def game0_def state0_def)
  have c: "cellUnderPacman gameLastPellet = Some 2"
    by (simp add: cellUnderPacman_def gameLastPellet_def game0_def pacman0_def)
  have w: "pacmanTunnelWrap gameLastPellet = None"
    by (rule no_tunnel_no_pacman_wrap) (simp add: gameLastPellet_def)
  have cand: "pacmanCandidate (1 / 50) gameLastPellet = (34, 30)"
    by (simp add: pacmanCandidate_def inputDirection_def directions_def gameLastPellet_def
        game0_def pacman0_def noKeys_def Let_def)
  have v: "isValidPosition gameLastPellet 34 30 (psize (pacman gameLastPellet))"
    by (simp add: isValidPosition_def gameLastPellet_def game0_def pacman0_def CANVAS_WIDTH_def
        CANVAS_HEIGHT_def CLASSIC_COLS_eq CLASSIC_ROWS_eq)
  have p: "px (pacman (updatePacman (1 / 50) gameLastPellet)) = 34"
    "py (pacman (updatePacman (1 / 50) gameLastPellet)) = 30"
    using v by (simp_all add: updatePacman_def w cand Let_def split: prod.splits)
  have c': "cellUnderPacman (updatePacman (1 / 50) gameLastPellet) = Some 2"
    unfolding cellUnderPacman_def Let_def p updatePacman_frame
    by (simp add: gameLastPellet_def game0_def)
  note main = pellet_consumption_and_level_advance [OF inv, of "1 / 50"]
  from main c f have 1: "pelletsRemaining (state (checkCollisions gameLastPellet)) = 0"
    by simp
  from main c f have 2: "score (state (collectPellet gameLastPellet)) = 10
      \<and> cellUnderPacman (collectPellet gameLastPellet) = Some 0"
    by simp
  from main c' f have 3: "pelletsRemaining (state (updateToCollisions (1 / 50) gameLastPellet)) = 0"
    by simp
  with main have "level (state (update (1 / 50) gameLastPellet)) = level (state gameLastPellet) + 1
      \<and> gameMap (update (1 / 50) gameLastPellet) = createDefaultMap
      \<and> px (pacman (update (1 / 50) gameLastPellet)) = GRID_SIZE gameLastPellet * 1.5"
    by blast
  then have 4: "level (state (update (1 / 50) gameLastPellet)) = 2
      \<and> gameMap (update (1 / 50) gameLastPellet) = createDefaultMap
      \<and> px (pacman (update (1 / 50) gameLastPellet)) = 30"
    by (simp add: f)
  from inv c c' 1 2 3 4 show ?thesis by blast
qed

subsection \<open>Fright over a whole tick\<close>

lemma updateGhostList_nth:
  "length (fst (updateGhostList g dt ghs r)) = length ghs
   \<and> (\<forall>i < length ghs. \<exists>r'. fst (updateGhostList g dt ghs r) ! i = fst (updateGhost g dt (ghs ! i) r'))"
proof (induction ghs arbitrary: r)
  case Nil
  then show ?case by simp
next
  case (Cons gh ghs)
  obtain gh' r1 where h: "updateGhost g dt gh r = (gh', r1)" by (cases "updateGhost g dt gh r")
  obtain rest' r2 where t: "updateGhostList g dt ghs r1 = (rest', r2)"
    by (cases "updateGhostList g dt ghs r1")
  from Cons.IH [of r1] t have ih: "length rest' = length ghs"
    "\<forall>i < length ghs. \<exists>r'. rest' ! i = fst (updateGhost g dt (ghs ! i) r')"
    by simp_all
  have res: "fst (updateGhostList g dt (gh # ghs) r) = gh' # rest'"
    by (simp add: h t)
  have "\<exists>r'. (gh' # rest') ! i = fst (updateGhost g dt ((gh # ghs) ! i) r')"
    if "i < length (gh # ghs)" for i
  proof (cases i)
    case 0
    with h show ?thesis by (metis fst_conv nth_Cons_0)
  next
    case (Suc j)
    with that ih(2) show ?thesis by simp
  qed
  with ih(1) show ?case unfolding res by simp
qed

lemma updateGhosts_nth:
  "length (ghosts (updateGhosts dt g)) = length (ghosts g)
   \<and> (\<forall>i < length (ghosts g).
        \<exists>r'. ghosts (updateGhosts dt g) ! i = fst (updateGhost g dt (ghosts g ! i) r'))"
proof -
  have "ghosts (updateGhosts dt g) = fst (updateGhostList g dt (ghosts g) (rnd g))"
    by (simp add: updateGhosts_def Let_def split: prod.splits)
  with updateGhostList_nth [of g dt "ghosts g" "rnd g"] show ?thesis by simp
qed

lemma updatePowerPelletTimer_ghosts:
  "ghosts (updatePowerPelletTimer dt g) =
     (if powerPelletActive (state g) \<and> powerPelletTimer (state g) - dt \<le> 0
      then map endFrightened (ghosts g) else ghosts g)"
  by (simp add: updatePowerPelletTimer_def Let_def)

lemma collectPellet_ghosts:
  "ghosts (collectPellet g) =
     (if cellUnderPacman g = Some 3 then map frightenGhost (ghosts g) else ghosts g)"
proof (cases "cellUnderPacman g = Some 3")
  case True
  then show ?thesis by (simp add: collectPellet_power)
next
  case False
  show ?thesis
  proof (cases "cellUnderPacman g = Some 2")
    case True
    then show ?thesis using False by (simp add: collectPellet_pellet)
  next
    case n2: False
    with False show ?thesis by (simp add: collectPellet_other)
  qed
qed

lemma update_core:
  "map ghostCore (ghosts (update dt g)) =
   map ghostCore (ghosts (collectPellet
     (updatePowerPelletTimer dt (updateGhosts dt (updatePacman dt g)))))"
  by (simp add: update_def Let_def updateToCollisions_def checkCollisions_core
      nextLevel_effect map_ghostCore_reset)

text \<open>
  What one tick does to the mode and the two schedule timers of a ghost that enters it
  frightened and outside the ghost house: they are those of the ghost after the countdown
  block and the pellet block, applied to a ghost that is still frightened with its timers
  untouched.
\<close>

lemma update_frightened_ghost:
  assumes i: "i < length (ghosts g)"
    and fr: "mode (ghosts g ! i) = Frightened" "\<not> inGhostHouse (ghosts g ! i)"
  shows "\<exists>gh. mode gh = Frightened \<and> \<not> inGhostHouse gh
      \<and> scatterTimer gh = scatterTimer (ghosts g ! i)
      \<and> chaseTimer gh = chaseTimer (ghosts g ! i)
      \<and> (let gh1 = (if powerPelletActive (state g) \<and> powerPelletTimer (state g) - dt \<le> 0
                      then endFrightened gh else gh);
               gh2 = (if cellUnderPacman (updatePacman dt g) = Some 3 then frightenGhost gh1 else gh1)
           in mode (ghosts (update dt g) ! i) = mode gh2
            \<and> scatterTimer (ghosts (update dt g) ! i) = scatterTimer gh2
            \<and> chaseTimer (ghosts (update dt g) ! i) = chaseTimer gh2)"
proof -
  let ?g1 = "updatePacman dt g"
  let ?g2 = "updateGhosts dt ?g1"
  let ?g3 = "updatePowerPelletTimer dt ?g2"
  have i1: "i < length (ghosts ?g1)" "ghosts ?g1 ! i = ghosts g ! i"
    using i by (simp_all add: updatePacman_frame)
  from updateGhosts_nth [of dt ?g1] i1 obtain r' where
    len2: "length (ghosts ?g2) = length (ghosts g)"
    and g2i: "ghosts ?g2 ! i = fst (updateGhost ?g1 dt (ghosts g ! i) r')"
    by (auto simp: updatePacman_frame)
  define gh where "gh = ghosts ?g2 ! i"
  from updateGhost_frightened [OF fr, of ?g1 dt r'] g2i
  have gh: "mode gh = Frightened" "scatterTimer gh = scatterTimer (ghosts g ! i)"
    "chaseTimer gh = chaseTimer (ghosts g ! i)"
    by (simp_all add: gh_def)
  have house: "\<not> inGhostHouse gh"
  proof -
    let ?l = "leaveGhostHouse ?g1 dt (ghosts g ! i)"
    have l: "\<not> inGhostHouse ?l"
      using fr by (simp add: leaveGhostHouse_def Let_def)
    have ai: "inGhostHouse (fst (updateGhostAI g' x dt r0)) = inGhostHouse x" for g' x r0
      by (auto simp: updateGhostAI_def updateModeTimers_def Let_def chooseGhostDirection_def
          split: prod.splits)
    have mv: "inGhostHouse (fst (moveGhost g' x dt r0)) = inGhostHouse x" for g' x r0
      by (auto simp: moveGhost_def ghostTunnelWrap_def Let_def chooseGhostDirection_def
          split: prod.splits option.splits if_splits)
    obtain gh3 r1 where a: "updateGhostAI ?g1 ?l dt r' = (gh3, r1)"
      by (cases "updateGhostAI ?g1 ?l dt r'")
    from ai [of ?g1 ?l r'] a l have h3: "\<not> inGhostHouse gh3" by simp
    have "updateGhost ?g1 dt (ghosts g ! i) r' = moveGhost ?g1 gh3 dt r1"
      using l a by (simp add: updateGhost_def Let_def)
    with mv [of ?g1 gh3 r1] h3 show ?thesis
      unfolding gh_def g2i by simp
  qed
  have st: "state ?g2 = state g"
    by (simp add: updateGhosts_frame updatePacman_frame)
  let ?gh1 = "if powerPelletActive (state g) \<and> powerPelletTimer (state g) - dt \<le> 0
              then endFrightened gh else gh"
  have g3i: "ghosts ?g3 ! i = ?gh1" "length (ghosts ?g3) = length (ghosts g)"
    using i len2 by (simp_all add: updatePowerPelletTimer_ghosts st gh_def)
  have cell3: "cellUnderPacman ?g3 = cellUnderPacman ?g1"
    by (rule cellUnderPacman_beforeCollisions)
  let ?gh2 = "if cellUnderPacman ?g1 = Some 3 then frightenGhost ?gh1 else ?gh1"
  have g4i: "ghosts (collectPellet ?g3) ! i = ?gh2"
    "i < length (ghosts (collectPellet ?g3))"
    using i g3i by (simp_all add: collectPellet_ghosts cell3)
  from same_core_nth [OF update_core g4i(2)]
  have "mode (ghosts (update dt g) ! i) = mode ?gh2
      \<and> scatterTimer (ghosts (update dt g) ! i) = scatterTimer ?gh2
      \<and> chaseTimer (ghosts (update dt g) ! i) = chaseTimer ?gh2"
    by (simp only: g4i(1))
  with gh house show ?thesis
    unfolding Let_def by blast
qed

lemma valid_default_cell:
  assumes "gameMap g = createDefaultMap" "GRID_SIZE g = 20"
    "sz \<le> x" "x + sz \<le> 560" "sz \<le> y" "y + sz \<le> 580"
    "\<lfloor>x / 20\<rfloor> = int cx" "\<lfloor>y / 20\<rfloor> = int cy" "cx < 28" "cy < 29"
  shows "isValidPosition g x y sz = (ascii ! cy ! cx \<noteq> CHR ''#'')"
  using assms
  by (simp add: isValidPosition_def CANVAS_WIDTH_def CANVAS_HEIGHT_def CLASSIC_COLS_eq
      CLASSIC_ROWS_eq length_createDefaultMap createDefaultMap_row_length
      createDefaultMap_cell cellOfChar_def)

lemma cell_default:
  assumes "gameMap g = createDefaultMap" "GRID_SIZE g = 20"
    "\<lfloor>px (pacman g) / 20\<rfloor> = int cx" "\<lfloor>py (pacman g) / 20\<rfloor> = int cy" "cx < 28" "cy < 29"
  shows "cellUnderPacman g = Some (cellOfChar (ascii ! cy ! cx))"
  using assms
  by (simp add: cellUnderPacman_def length_createDefaultMap createDefaultMap_row_length
      createDefaultMap_cell)

lemma gameFrightEnding_moves:
  "cellUnderPacman (updatePacman (1 / 50) gameFrightEnding) = Some 0"
proof -
  have f: "gameMap gameFrightEnding = createDefaultMap" "GRID_SIZE gameFrightEnding = 20"
    "tunnelRows gameFrightEnding = {}" "psize (pacman gameFrightEnding) = 8"
    by (simp_all add: gameFrightEnding_def game0_def pacman0_def tunnelRowsOf_createDefaultMap)
  have w: "pacmanTunnelWrap gameFrightEnding = None"
    by (rule no_tunnel_no_pacman_wrap) (rule f)
  have cand: "pacmanCandidate (1 / 50) gameFrightEnding = (194, 230)"
    by (simp add: pacmanCandidate_def inputDirection_def directions_def gameFrightEnding_def
        game0_def pacman0_def noKeys_def Let_def)
  have v: "isValidPosition gameFrightEnding 194 230 8"
    by (subst valid_default_cell [where cx = 9 and cy = 11]) (simp_all add: f ascii_def)
  have p: "px (pacman (updatePacman (1 / 50) gameFrightEnding)) = 194"
    "py (pacman (updatePacman (1 / 50) gameFrightEnding)) = 230"
    using v by (simp_all add: updatePacman_def w cand f Let_def split: prod.splits)
  have "cellUnderPacman (updatePacman (1 / 50) gameFrightEnding)
      = Some (cellOfChar (ascii ! 11 ! 9))"
    by (rule cell_default) (simp_all add: updatePacman_frame f p)
  then show ?thesis by (simp add: ascii_def cellOfChar_def)
qed

lemma endFrightened_fields:
  assumes "mode gh = Frightened"
  shows "mode (endFrightened gh) = Scatter" "scatterTimer (endFrightened gh) = Some 3"
    "chaseTimer (endFrightened gh) = chaseTimer gh" "gspeed (endFrightened gh) = 0.8 * GAME_SPEED"
    "inGhostHouse (endFrightened gh) = inGhostHouse gh"
  using assms by (simp_all add: endFrightened_def)

lemma frightenGhost_fields:
  assumes "\<not> inGhostHouse gh" "mode gh \<noteq> Dead"
  shows "mode (frightenGhost gh) = Frightened" "scatterTimer (frightenGhost gh) = scatterTimer gh"
    "chaseTimer (frightenGhost gh) = chaseTimer gh"
  using assms by (simp_all add: frightenGhost_def)

lemma update_frightened_expiry:
  assumes i: "i < length (ghosts g)"
    and fr: "mode (ghosts g ! i) = Frightened" "\<not> inGhostHouse (ghosts g ! i)"
    and ex: "powerPelletActive (state g)" "powerPelletTimer (state g) - dt \<le> 0"
  shows "scatterTimer (ghosts (update dt g) ! i) = Some 3
       \<and> chaseTimer (ghosts (update dt g) ! i) = chaseTimer (ghosts g ! i)
       \<and> mode (ghosts (update dt g) ! i) =
           (if cellUnderPacman (updatePacman dt g) = Some 3 then Frightened else Scatter)"
proof -
  from update_frightened_ghost [OF i fr, of dt] ex obtain gh where
    gh: "mode gh = Frightened" "\<not> inGhostHouse gh"
      "scatterTimer gh = scatterTimer (ghosts g ! i)" "chaseTimer gh = chaseTimer (ghosts g ! i)"
    and res: "mode (ghosts (update dt g) ! i) =
         mode (if cellUnderPacman (updatePacman dt g) = Some 3
               then frightenGhost (endFrightened gh) else endFrightened gh)"
      "scatterTimer (ghosts (update dt g) ! i) =
         scatterTimer (if cellUnderPacman (updatePacman dt g) = Some 3
               then frightenGhost (endFrightened gh) else endFrightened gh)"
      "chaseTimer (ghosts (update dt g) ! i) =
         chaseTimer (if cellUnderPacman (updatePacman dt g) = Some 3
               then frightenGhost (endFrightened gh) else endFrightened gh)"
    unfolding Let_def by auto
  note e = endFrightened_fields [OF gh(1)]
  have f: "mode (frightenGhost (endFrightened gh)) = Frightened"
    "scatterTimer (frightenGhost (endFrightened gh)) = Some 3"
    "chaseTimer (frightenGhost (endFrightened gh)) = chaseTimer gh"
    using e gh(2) by (simp_all add: frightenGhost_def)
  show ?thesis
    unfolding res using e f gh by simp
qed

lemma update_frightened_continues:
  assumes i: "i < length (ghosts g)"
    and fr: "mode (ghosts g ! i) = Frightened" "\<not> inGhostHouse (ghosts g ! i)"
    and ex: "\<not> (powerPelletActive (state g) \<and> powerPelletTimer (state g) - dt \<le> 0)"
  shows "mode (ghosts (update dt g) ! i) = Frightened
       \<and> scatterTimer (ghosts (update dt g) ! i) = scatterTimer (ghosts g ! i)
       \<and> chaseTimer (ghosts (update dt g) ! i) = chaseTimer (ghosts g ! i)"
proof -
  from update_frightened_ghost [OF i fr, of dt] ex obtain gh where
    gh: "mode gh = Frightened" "\<not> inGhostHouse gh"
      "scatterTimer gh = scatterTimer (ghosts g ! i)" "chaseTimer gh = chaseTimer (ghosts g ! i)"
    and res: "mode (ghosts (update dt g) ! i) =
         mode (if cellUnderPacman (updatePacman dt g) = Some 3 then frightenGhost gh else gh)"
      "scatterTimer (ghosts (update dt g) ! i) =
         scatterTimer (if cellUnderPacman (updatePacman dt g) = Some 3 then frightenGhost gh else gh)"
      "chaseTimer (ghosts (update dt g) ! i) =
         chaseTimer (if cellUnderPacman (updatePacman dt g) = Some 3 then frightenGhost gh else gh)"
    unfolding Let_def by auto
  have f: "mode (frightenGhost gh) = Frightened" "scatterTimer (frightenGhost gh) = scatterTimer gh"
    "chaseTimer (frightenGhost gh) = chaseTimer gh"
    using gh by (simp_all add: frightenGhost_def)
  show ?thesis
    unfolding res using f gh by simp
qed


lemma cell_gamePower: "cellUnderPacman gamePower = Some 3"
  by (simp add: cellUnderPacman_def gamePower_def game0_def pacman0_def
      length_createDefaultMap createDefaultMap_row_length createDefaultMap_cell
      ascii_def cellOfChar_def)

text \<open>
  C7 (as the code has it). Taking a power pellet applies \<^verbatim>\<open>frightenGhost\<close> to every
  ghost, which leaves \<^verbatim>\<open>scatterTimer\<close> and \<^verbatim>\<open>chaseTimer\<close> as they were; a frightened
  ghost outside the ghost house keeps both timers, and stays frightened, through its
  per-ghost update and through every whole tick in which the power countdown does not run
  out. In the tick in which the countdown runs out (the power state is active and the
  time left does not exceed the step) the countdown block switches the power state off
  and applies \<^verbatim>\<open>endFrightened\<close> to every ghost: a frightened ghost ends that tick with
  \<^verbatim>\<open>scatterTimer = 3\<close>, its \<^verbatim>\<open>chaseTimer\<close> kept, and in scatter mode (frightened again
  only if the protagonist takes another power pellet in that same tick), whatever it was
  doing before the fright.
\<close>

theorem fright_keeps_timers_then_short_scatter:
  "(\<not> inGhostHouse ghost \<and> mode ghost \<noteq> Dead \<longrightarrow>
      mode (frightenGhost ghost) = Frightened
    \<and> scatterTimer (frightenGhost ghost) = scatterTimer ghost
    \<and> chaseTimer (frightenGhost ghost) = chaseTimer ghost)
   \<and> (mode ghost = Frightened \<and> \<not> inGhostHouse ghost \<longrightarrow>
      mode (fst (updateGhost g deltaTime ghost r)) = Frightened
    \<and> scatterTimer (fst (updateGhost g deltaTime ghost r)) = scatterTimer ghost
    \<and> chaseTimer (fst (updateGhost g deltaTime ghost r)) = chaseTimer ghost)
   \<and> (mode ghost = Frightened \<longrightarrow>
      mode (endFrightened ghost) = Scatter
    \<and> scatterTimer (endFrightened ghost) = Some 3
    \<and> chaseTimer (endFrightened ghost) = chaseTimer ghost
    \<and> gspeed (endFrightened ghost) = 0.8 * GAME_SPEED)
   \<and> ghosts (collectPellet g) =
        (if cellUnderPacman g = Some 3 then map frightenGhost (ghosts g) else ghosts g)
   \<and> ghosts (updatePowerPelletTimer deltaTime g) =
        (if powerPelletActive (state g) \<and> powerPelletTimer (state g) - deltaTime \<le> 0
         then map endFrightened (ghosts g) else ghosts g)
   \<and> powerPelletActive (state (updatePowerPelletTimer deltaTime g)) =
        (powerPelletActive (state g) \<and> \<not> powerPelletTimer (state g) - deltaTime \<le> 0)
   \<and> (i < length (ghosts g) \<and> mode (ghosts g ! i) = Frightened
        \<and> \<not> inGhostHouse (ghosts g ! i) \<longrightarrow>
        (powerPelletActive (state g) \<and> powerPelletTimer (state g) - deltaTime \<le> 0 \<longrightarrow>
           scatterTimer (ghosts (update deltaTime g) ! i) = Some 3
         \<and> chaseTimer (ghosts (update deltaTime g) ! i) = chaseTimer (ghosts g ! i)
         \<and> mode (ghosts (update deltaTime g) ! i) =
             (if cellUnderPacman (updatePacman deltaTime g) = Some 3 then Frightened else Scatter))
      \<and> (\<not> (powerPelletActive (state g) \<and> powerPelletTimer (state g) - deltaTime \<le> 0) \<longrightarrow>
           mode (ghosts (update deltaTime g) ! i) = Frightened
         \<and> scatterTimer (ghosts (update deltaTime g) ! i) = scatterTimer (ghosts g ! i)
         \<and> chaseTimer (ghosts (update deltaTime g) ! i) = chaseTimer (ghosts g ! i)))"
proof -
  have a: "\<not> inGhostHouse ghost \<and> mode ghost \<noteq> Dead \<longrightarrow>
      mode (frightenGhost ghost) = Frightened
    \<and> scatterTimer (frightenGhost ghost) = scatterTimer ghost
    \<and> chaseTimer (frightenGhost ghost) = chaseTimer ghost"
    by (simp add: frightenGhost_def)
  have b: "mode ghost = Frightened \<and> \<not> inGhostHouse ghost \<longrightarrow>
      mode (fst (updateGhost g deltaTime ghost r)) = Frightened
    \<and> scatterTimer (fst (updateGhost g deltaTime ghost r)) = scatterTimer ghost
    \<and> chaseTimer (fst (updateGhost g deltaTime ghost r)) = chaseTimer ghost"
    using updateGhost_frightened [of ghost g deltaTime r] by blast
  have c: "mode ghost = Frightened \<longrightarrow>
      mode (endFrightened ghost) = Scatter
    \<and> scatterTimer (endFrightened ghost) = Some 3
    \<and> chaseTimer (endFrightened ghost) = chaseTimer ghost
    \<and> gspeed (endFrightened ghost) = 0.8 * GAME_SPEED"
    by (simp add: endFrightened_def)
  have d: "powerPelletActive (state (updatePowerPelletTimer deltaTime g)) =
        (powerPelletActive (state g) \<and> \<not> powerPelletTimer (state g) - deltaTime \<le> 0)"
    by (simp add: updatePowerPelletTimer_def Let_def)
  have e: "i < length (ghosts g) \<and> mode (ghosts g ! i) = Frightened
        \<and> \<not> inGhostHouse (ghosts g ! i) \<longrightarrow>
        (powerPelletActive (state g) \<and> powerPelletTimer (state g) - deltaTime \<le> 0 \<longrightarrow>
           scatterTimer (ghosts (update deltaTime g) ! i) = Some 3
         \<and> chaseTimer (ghosts (update deltaTime g) ! i) = chaseTimer (ghosts g ! i)
         \<and> mode (ghosts (update deltaTime g) ! i) =
             (if cellUnderPacman (updatePacman deltaTime g) = Some 3 then Frightened else Scatter))
      \<and> (\<not> (powerPelletActive (state g) \<and> powerPelletTimer (state g) - deltaTime \<le> 0) \<longrightarrow>
           mode (ghosts (update deltaTime g) ! i) = Frightened
         \<and> scatterTimer (ghosts (update deltaTime g) ! i) = scatterTimer (ghosts g ! i)
         \<and> chaseTimer (ghosts (update deltaTime g) ! i) = chaseTimer (ghosts g ! i))"
    using update_frightened_expiry [of i g deltaTime] update_frightened_continues [of i g deltaTime]
    by blast
  from a b c d e collectPellet_ghosts [of g] updatePowerPelletTimer_ghosts [of deltaTime g]
  show ?thesis by blast
qed

theorem fright_keeps_timers_then_short_scatter_witness:
  "\<not> inGhostHouse ghost0 \<and> mode ghost0 \<noteq> Dead
   \<and> mode (frightenGhost ghost0) = Frightened
   \<and> chaseTimer (frightenGhost ghost0) = Some 12
   \<and> \<not> inGhostHouse (frightenGhost ghost0)
   \<and> chaseTimer (fst (updateGhost game0 (1 / 60) (frightenGhost ghost0) (rnd game0))) = Some 12
   \<and> scatterTimer (endFrightened (frightenGhost ghost0)) = Some 3
   \<and> 0 < length (ghosts gameFrightEnding)
   \<and> mode (ghosts gameFrightEnding ! 0) = Frightened
   \<and> \<not> inGhostHouse (ghosts gameFrightEnding ! 0)
   \<and> powerPelletActive (state gameFrightEnding)
   \<and> powerPelletTimer (state gameFrightEnding) - 1 / 50 \<le> 0
   \<and> scatterTimer (ghosts (update (1 / 50) gameFrightEnding) ! 0) = Some 3
   \<and> chaseTimer (ghosts (update (1 / 50) gameFrightEnding) ! 0) = Some 12
   \<and> 0 < length (ghosts gameEat)
   \<and> mode (ghosts gameEat ! 0) = Frightened
   \<and> \<not> inGhostHouse (ghosts gameEat ! 0)
   \<and> \<not> (powerPelletActive (state gameEat) \<and> powerPelletTimer (state gameEat) - 1 / 50 \<le> 0)
   \<and> mode (ghosts (update (1 / 50) gameEat) ! 0) = Frightened
   \<and> scatterTimer (ghosts (update (1 / 50) gameEat) ! 0) = Some 7
   \<and> chaseTimer (ghosts (update (1 / 50) gameEat) ! 0) = Some 12"
proof -
  have a: "\<not> inGhostHouse ghost0 \<and> mode ghost0 \<noteq> Dead" "chaseTimer ghost0 = Some 12"
    by (simp_all add: ghost0_def)
  have b: "mode (frightenGhost ghost0) = Frightened \<and> \<not> inGhostHouse (frightenGhost ghost0)"
    by (simp add: ghost0_def frightenGhost_def)
  note main1 = fright_keeps_timers_then_short_scatter
      [where ghost = ghost0 and g = game0 and deltaTime = "1 / 60" and r = "rnd game0"]
  note main2 = fright_keeps_timers_then_short_scatter
      [where ghost = "frightenGhost ghost0" and g = game0 and deltaTime = "1 / 60"
        and r = "rnd game0"]
  note main3 = fright_keeps_timers_then_short_scatter
      [where g = gameFrightEnding and deltaTime = "1 / 50" and i = 0]
  from main1 a
  have 1: "mode (frightenGhost ghost0) = Frightened \<and> chaseTimer (frightenGhost ghost0) = Some 12"
    by simp
  from main2 b
  have 2: "chaseTimer (fst (updateGhost game0 (1 / 60) (frightenGhost ghost0) (rnd game0)))
             = chaseTimer (frightenGhost ghost0)
         \<and> scatterTimer (endFrightened (frightenGhost ghost0)) = Some 3"
    by blast
  have c: "0 < length (ghosts gameFrightEnding)" "ghosts gameFrightEnding ! 0 = frightenGhost ghost0"
    "powerPelletActive (state gameFrightEnding)"
    "powerPelletTimer (state gameFrightEnding) - 1 / 50 \<le> 0"
    by (simp_all add: gameFrightEnding_def)
  have c': "0 < length (ghosts gameFrightEnding) \<and> mode (ghosts gameFrightEnding ! 0) = Frightened
     \<and> \<not> inGhostHouse (ghosts gameFrightEnding ! 0)"
    using b c by simp
  from main3 c' c(3,4)
  have 3: "scatterTimer (ghosts (update (1 / 50) gameFrightEnding) ! 0) = Some 3
     \<and> chaseTimer (ghosts (update (1 / 50) gameFrightEnding) ! 0) = chaseTimer (ghosts gameFrightEnding ! 0)"
    by blast
  note main4 = fright_keeps_timers_then_short_scatter
      [where g = gameEat and deltaTime = "1 / 50" and i = 0]
  have d: "0 < length (ghosts gameEat) \<and> mode (ghosts gameEat ! 0) = Frightened
     \<and> \<not> inGhostHouse (ghosts gameEat ! 0)"
    "\<not> (powerPelletActive (state gameEat) \<and> powerPelletTimer (state gameEat) - 1 / 50 \<le> 0)"
    "scatterTimer (ghosts gameEat ! 0) = Some 7" "chaseTimer (ghosts gameEat ! 0) = Some 12"
    by (simp_all add: gameEat_def game0_def state0_def ghost0_def)
  from main4 d(1,2)
  have 4: "mode (ghosts (update (1 / 50) gameEat) ! 0) = Frightened
     \<and> scatterTimer (ghosts (update (1 / 50) gameEat) ! 0) = scatterTimer (ghosts gameEat ! 0)
     \<and> chaseTimer (ghosts (update (1 / 50) gameEat) ! 0) = chaseTimer (ghosts gameEat ! 0)"
    by blast
  from a b 1 2 3 c c' have first: "\<not> inGhostHouse ghost0 \<and> mode ghost0 \<noteq> Dead
   \<and> mode (frightenGhost ghost0) = Frightened
   \<and> chaseTimer (frightenGhost ghost0) = Some 12
   \<and> \<not> inGhostHouse (frightenGhost ghost0)
   \<and> chaseTimer (fst (updateGhost game0 (1 / 60) (frightenGhost ghost0) (rnd game0))) = Some 12
   \<and> scatterTimer (endFrightened (frightenGhost ghost0)) = Some 3
   \<and> 0 < length (ghosts gameFrightEnding)
   \<and> mode (ghosts gameFrightEnding ! 0) = Frightened
   \<and> \<not> inGhostHouse (ghosts gameFrightEnding ! 0)
   \<and> powerPelletActive (state gameFrightEnding)
   \<and> powerPelletTimer (state gameFrightEnding) - 1 / 50 \<le> 0
   \<and> scatterTimer (ghosts (update (1 / 50) gameFrightEnding) ! 0) = Some 3
   \<and> chaseTimer (ghosts (update (1 / 50) gameFrightEnding) ! 0) = Some 12"
    by simp
  from 4 d have second: "0 < length (ghosts gameEat)
   \<and> mode (ghosts gameEat ! 0) = Frightened
   \<and> \<not> inGhostHouse (ghosts gameEat ! 0)
   \<and> \<not> (powerPelletActive (state gameEat) \<and> powerPelletTimer (state gameEat) - 1 / 50 \<le> 0)
   \<and> mode (ghosts (update (1 / 50) gameEat) ! 0) = Frightened
   \<and> scatterTimer (ghosts (update (1 / 50) gameEat) ! 0) = Some 7
   \<and> chaseTimer (ghosts (update (1 / 50) gameEat) ! 0) = Some 12"
    by simp
  from first second show ?thesis by blast
qed

text \<open>
  C7 as stated fails: \<open>ghost0\<close> is 8 seconds into its chase (12 left, scatter timer at 7)
  when a power pellet frightens it; in the tick in which the countdown runs out it ends
  in scatter mode with a 3-second scatter timer: it has not resumed its chase, and its
  scatter timer is not the one it had.
\<close>

theorem fright_resumes_schedule_counterexample:
  "mode ghost0 = Chase \<and> scatterTimer ghost0 = Some 7 \<and> chaseTimer ghost0 = Some 12
   \<and> ghosts gamePower ! 0 = ghost0
   \<and> ghosts (collectPellet gamePower) ! 0 = frightenGhost ghost0
   \<and> ghosts gameFrightEnding ! 0 = frightenGhost ghost0
   \<and> powerPelletActive (state gameFrightEnding)
   \<and> powerPelletTimer (state gameFrightEnding) - 1 / 50 \<le> 0
   \<and> mode (ghosts (update (1 / 50) gameFrightEnding) ! 0) = Scatter
   \<and> scatterTimer (ghosts (update (1 / 50) gameFrightEnding) ! 0) = Some 3"
proof -
  have a: "mode ghost0 = Chase \<and> scatterTimer ghost0 = Some 7 \<and> chaseTimer ghost0 = Some 12"
    by (simp add: ghost0_def)
  have b: "ghosts gamePower ! 0 = ghost0"
    "ghosts (collectPellet gamePower) ! 0 = frightenGhost ghost0"
    by (simp_all add: collectPellet_ghosts cell_gamePower) (simp_all add: gamePower_def)
  have c: "0 < length (ghosts gameFrightEnding)" "ghosts gameFrightEnding ! 0 = frightenGhost ghost0"
    "powerPelletActive (state gameFrightEnding)"
    "powerPelletTimer (state gameFrightEnding) - 1 / 50 \<le> 0"
    by (simp_all add: gameFrightEnding_def)
  have fr: "mode (ghosts gameFrightEnding ! 0) = Frightened"
    "\<not> inGhostHouse (ghosts gameFrightEnding ! 0)"
    unfolding c(2) by (simp_all add: ghost0_def frightenGhost_def)
  from update_frightened_expiry [OF c(1) fr c(3) c(4)] gameFrightEnding_moves
  have "mode (ghosts (update (1 / 50) gameFrightEnding) ! 0) = Scatter
     \<and> scatterTimer (ghosts (update (1 / 50) gameFrightEnding) ! 0) = Some 3"
    by simp
  with a b c show ?thesis by simp
qed

subsection \<open>A ghost at a dead end\<close>

lemma getGhostTarget_constant_source:
  "snd (getGhostTarget g ghost (\<lambda>n. c)) = (\<lambda>n. c)"
  by (simp add: getGhostTarget_def random_def Let_def split: option.splits)

lemma resolveTarget_constant_source:
  "snd (resolveTarget g ghost t (\<lambda>n. c)) = (\<lambda>n. c)"
  by (simp add: resolveTarget_def getGhostTarget_constant_source split: option.splits)

lemma deadEnd_walls:
  assumes "gameMap g = createDefaultMap" "GRID_SIZE g = 20"
  shows "\<not> isValidPosition g 22 306 8" "\<not> isValidPosition g 6 290 8"
    "\<not> isValidPosition g 22 274 8" "\<not> isValidPosition g 18 290 8"
proof -
  show "\<not> isValidPosition g 22 306 8"
    by (subst valid_default_cell [where cx = 1 and cy = 15]) (simp_all add: assms ascii_def)
  show "\<not> isValidPosition g 6 290 8"
    by (simp add: isValidPosition_def)
  show "\<not> isValidPosition g 22 274 8"
    by (subst valid_default_cell [where cx = 1 and cy = 13]) (simp_all add: assms ascii_def)
  show "\<not> isValidPosition g 18 290 8"
    by (subst valid_default_cell [where cx = 0 and cy = 14]) (simp_all add: assms ascii_def)
qed

lemma chooseGhostDirection_deadEnd:
  assumes g: "gameMap g = createDefaultMap" "GRID_SIZE g = 20" and gh: "atDeadEnd ghost"
  shows "chooseGhostDirection g ghost t (\<lambda>n. 1 / 2) = (ghost, \<lambda>n. 1 / 2)"
proof -
  obtain tgt r0 where rt0: "resolveTarget g ghost t (\<lambda>n. 1 / 2) = (tgt, r0)"
    by (cases "resolveTarget g ghost t (\<lambda>n. 1 / 2)")
  with resolveTarget_constant_source [of g ghost t "1 / 2"]
  have rt: "resolveTarget g ghost t (\<lambda>n. 1 / 2) = (tgt, \<lambda>n. 1 / 2)" by simp
  from gh have f: "gx ghost = 22" "gy ghost = 290" "gdirection ghost = 2" "gsize ghost = 8"
    "gspeed ghost = 160"
    by (simp_all add: atDeadEnd_def)
  note w = deadEnd_walls [OF g]
  have "fold (considerDirection g ghost tgt) directionTable (gdirection ghost, None, \<lambda>n. 1 / 2)
      = (2, None, \<lambda>n. 1 / 2)"
    by (simp add: directionTable_def considerDirection_def lookahead_def f w random_def)
  moreover have "ghost\<lparr>gdirection := 2\<rparr> = ghost"
    using f(3) by (cases ghost) simp
  ultimately show ?thesis
    by (simp add: chooseGhostDirection_def rt)
qed

lemma updateModeTimers_deadEnd: "atDeadEnd ghost \<Longrightarrow> atDeadEnd (updateModeTimers ghost dt)"
  by (simp add: updateModeTimers_def atDeadEnd_def Let_def)

lemma updateGhostAI_deadEnd:
  assumes g: "gameMap g = createDefaultMap" "GRID_SIZE g = 20" and gh: "atDeadEnd ghost"
  shows "snd (updateGhostAI g ghost dt (\<lambda>n. 1 / 2)) = (\<lambda>n. 1 / 2)
       \<and> atDeadEnd (fst (updateGhostAI g ghost dt (\<lambda>n. 1 / 2)))"
proof -
  obtain tgt r1 where t0: "getGhostTarget g ghost (\<lambda>n. 1 / 2) = (tgt, r1)"
    by (cases "getGhostTarget g ghost (\<lambda>n. 1 / 2)")
  with getGhostTarget_constant_source [of g ghost "1 / 2"]
  have t: "getGhostTarget g ghost (\<lambda>n. 1 / 2) = (tgt, \<lambda>n. 1 / 2)" by simp
  let ?g1 = "updateModeTimers ghost dt"
  have a: "atDeadEnd (?g1\<lparr>lastDirectionUpdate := v\<rparr>)" for v
    using updateModeTimers_deadEnd [OF gh, of dt] by (simp add: atDeadEnd_def)
  show ?thesis
    using a by (simp add: updateGhostAI_def t Let_def chooseGhostDirection_deadEnd [OF g a])
qed

lemma moveGhost_deadEnd:
  assumes g: "gameMap g = createDefaultMap" "GRID_SIZE g = 20" "tunnelRows g = {}"
    and gh: "atDeadEnd ghost"
  shows "moveGhost g ghost (1 / 40) (\<lambda>n. 1 / 2) = (ghost, \<lambda>n. 1 / 2)"
proof -
  from gh have f: "gx ghost = 22" "gy ghost = 290" "gdirection ghost = 2" "gsize ghost = 8"
    "gspeed ghost = 160"
    by (simp_all add: atDeadEnd_def)
  have c: "ghostCandidate ghost (1 / 40) = (18, 290)"
    by (simp add: ghostCandidate_def directions_def f)
  have w: "ghostTunnelWrap g ghost (1 / 40) = None"
    using g(3) by (rule no_tunnel_no_ghost_wrap)
  have v: "\<not> isValidPosition g (fst (ghostCandidate ghost (1 / 40)))
      (snd (ghostCandidate ghost (1 / 40))) (gsize ghost)"
    using deadEnd_walls(4) [OF g(1,2)] by (simp add: c f)
  from moveGhost_rejected [OF w v] show ?thesis
    by (simp add: chooseGhostDirection_deadEnd [OF g(1,2) gh])
qed

lemma updateGhost_deadEnd:
  assumes g: "gameMap g = createDefaultMap" "GRID_SIZE g = 20" "tunnelRows g = {}"
    and gh: "atDeadEnd ghost"
  shows "snd (updateGhost g (1 / 40) ghost (\<lambda>n. 1 / 2)) = (\<lambda>n. 1 / 2)
       \<and> atDeadEnd (fst (updateGhost g (1 / 40) ghost (\<lambda>n. 1 / 2)))"
proof -
  let ?g2 = "leaveGhostHouse g (1 / 40) ghost"
  have l: "atDeadEnd ?g2"
    using gh by (simp add: leaveGhostHouse_def atDeadEnd_def Let_def)
  then have h: "\<not> inGhostHouse ?g2" by (simp add: atDeadEnd_def)
  obtain g3 r1 where ai: "updateGhostAI g ?g2 (1 / 40) (\<lambda>n. 1 / 2) = (g3, r1)"
    by (cases "updateGhostAI g ?g2 (1 / 40) (\<lambda>n. 1 / 2)")
  with updateGhostAI_deadEnd [OF g(1,2) l, of "1 / 40"]
  have 3: "r1 = (\<lambda>n. 1 / 2)" "atDeadEnd g3" by simp_all
  have "updateGhost g (1 / 40) ghost (\<lambda>n. 1 / 2) = moveGhost g g3 (1 / 40) r1"
    using h by (simp add: updateGhost_def Let_def ai)
  also have "\<dots> = (g3, \<lambda>n. 1 / 2)"
    unfolding 3(1) using g 3(2) by (rule moveGhost_deadEnd)
  finally show ?thesis using 3(2) by simp
qed

lemma updateGhosts_stalledSession:
  assumes "stalledSession g"
  shows "stalledSession (updateGhosts (1 / 40) g)"
proof -
  from assms have g: "gameMap g = createDefaultMap" "GRID_SIZE g = 20" "tunnelRows g = {}"
    and r: "rnd g = (\<lambda>n. 1 / 2)" and len: "length (ghosts g) = 1"
    and gh: "atDeadEnd (ghosts g ! 0)"
    by (simp_all add: stalledSession_def)
  from len have one: "ghosts g = [ghosts g ! 0]"
    by (cases "ghosts g") simp_all
  note u = updateGhosts_single [OF one, of "1 / 40", unfolded r]
  note d = updateGhost_deadEnd [OF g gh]
  have fr: "tunnelRows (updateGhosts (1 / 40) g) = tunnelRows g"
    by (simp add: updateGhosts_def Let_def split: prod.splits)
  show ?thesis
    unfolding stalledSession_def
    by (simp add: updateGhosts_frame fr g u d)
qed

text \<open>The stall lasts: however many ticks follow, the ghost is where it was, heading left.\<close>

lemma dead_end_stall_persists:
  "stalledSession ((updateGhosts (1 / 40) ^^ n) gameStuck)"
proof (induction n)
  case 0
  show ?case
    by (simp add: stalledSession_def atDeadEnd_def gameStuck_def game0_def ghostStuck_def
        ghost0_def tunnelRowsOf_createDefaultMap)
next
  case (Suc n)
  then show ?case by (simp add: updateGhosts_stalledSession)
qed

text \<open>
  C4. A ghost's rejected step does not always give it a new heading, and the ghost can
  be left stalled. \<open>ghostStuck\<close> heads left in the last open cell of the closed left end
  of row 14 of the built-in maze; its step is not a wrap-around and its candidate
  \<open>(18, 290)\<close> is in the wall. With random draws of 0.5 the direction re-selection that
  the rejected step triggers returns the ghost as it was, heading included, and the
  random source as it was. So the whole ghost update leaves the ghost at \<open>(22, 290)\<close>
  heading left, tick after tick: it is still there after 40 ticks, one second of play,
  which includes a timed re-selection as well.
\<close>

theorem rejected_step_leaves_ghost_stalled:
  "ghosts gameStuck = [ghostStuck]
   \<and> gx ghostStuck = 22 \<and> gy ghostStuck = 290 \<and> gdirection ghostStuck = 2
   \<and> rnd gameStuck 0 = 1 / 2
   \<and> ghostTunnelWrap gameStuck ghostStuck (1 / 40) = None
   \<and> ghostCandidate ghostStuck (1 / 40) = (18, 290)
   \<and> \<not> isValidPosition gameStuck 18 290 (gsize ghostStuck)
   \<and> moveGhost gameStuck ghostStuck (1 / 40) (rnd gameStuck) = (ghostStuck, rnd gameStuck)
   \<and> gx (ghosts (updateGhosts (1 / 40) gameStuck) ! 0) = 22
   \<and> gy (ghosts (updateGhosts (1 / 40) gameStuck) ! 0) = 290
   \<and> gdirection (ghosts (updateGhosts (1 / 40) gameStuck) ! 0) = 2
   \<and> gx (ghosts ((updateGhosts (1 / 40) ^^ 40) gameStuck) ! 0) = 22
   \<and> gy (ghosts ((updateGhosts (1 / 40) ^^ 40) gameStuck) ! 0) = 290
   \<and> gdirection (ghosts ((updateGhosts (1 / 40) ^^ 40) gameStuck) ! 0) = 2"
proof -
  have f: "ghosts gameStuck = [ghostStuck]" "rnd gameStuck = (\<lambda>n. 1 / 2)"
    "gameMap gameStuck = createDefaultMap" "GRID_SIZE gameStuck = 20"
    "tunnelRows gameStuck = {}"
    by (simp_all add: gameStuck_def game0_def tunnelRowsOf_createDefaultMap)
  have gh: "atDeadEnd ghostStuck"
    by (simp add: atDeadEnd_def ghostStuck_def ghost0_def)
  then have p: "gx ghostStuck = 22" "gy ghostStuck = 290" "gdirection ghostStuck = 2"
    "gsize ghostStuck = 8"
    by (simp_all add: atDeadEnd_def)
  have w: "ghostTunnelWrap gameStuck ghostStuck (1 / 40) = None"
    using f(5) by (rule no_tunnel_no_ghost_wrap)
  have v: "\<not> isValidPosition gameStuck 18 290 (gsize ghostStuck)"
    using deadEnd_walls(4) [OF f(3,4)] by (simp add: p)
  have m: "moveGhost gameStuck ghostStuck (1 / 40) (rnd gameStuck) = (ghostStuck, rnd gameStuck)"
    unfolding f(2) using f(3,4,5) gh by (rule moveGhost_deadEnd)
  have s: "atDeadEnd (ghosts ((updateGhosts (1 / 40) ^^ n) gameStuck) ! 0)" for n
    using dead_end_stall_persists [of n] by (simp add: stalledSession_def)
  have s1: "atDeadEnd (ghosts (updateGhosts (1 / 40) gameStuck) ! 0)"
    using s [of 1] by simp
  from f(1) p(1-3) f(2) w ghostStuck_candidate v m s1 s [of 40]
  show ?thesis by (simp add: atDeadEnd_def)
qed

end
